theory Spec2Isabelle
  imports Complex_Main "HOL-Library.AList"
begin

section \<open>Portfolio analytics API: the loader and the derived metrics of api/main.py\<close>

text \<open>
  Conventions of the embedding.
  \<^item> A Python \<open>float\<close> is a \<open>real\<close>: arithmetic is exact, and the rounding error of
    binary floating point is not represented. Infinities and NaN are not values of the
    model. The only place where the code can obtain one from a spreadsheet is \<open>float\<close>
    of a text such as \<open>inf\<close>; there the outcome is \<open>Inl NotRepresented\<close>, which is
    not an exception: no handler catches it, and a load or a query that meets it has the
    result \<open>None\<close>, about which nothing is stated.
  \<^item> A Python \<open>str\<close> is a \<open>string\<close> holding its UTF-8 bytes; the rupee sign U+20B9 is
    the three bytes \<open>E2 82 B9\<close>. Substring search and replacement agree with Python's
    on code points, because UTF-8 is self-synchronising.
  \<^item> A Python \<open>dict\<close> is an association list in insertion order; \<open>d[k] = v\<close> is
    \<open>AList.update k v d\<close> (replace in place, or append), \<open>d.get(k)\<close> is \<open>map_of d k\<close>.
  \<^item> An exception is a value \<open>Inl e\<close> of \<open>error + 'a\<close>; \<open>try/except\<close> is a case
    distinction on it (\<open>handled\<close> below).
\<close>

subsection \<open>Exceptions\<close>

datatype error =
    TypeError
  | ValueError
  | OverflowError
  | KeyError
  | IndexError
  | ZeroDivisionError
  | ColumnNotFoundError
  | DuplicateError
  | SheetReadError
  | HTTPException nat
  | NotRepresented

definition bind_err :: "error + 'a \<Rightarrow> ('a \<Rightarrow> error + 'b) \<Rightarrow> error + 'b" where
  "bind_err m f = (case m of Inl e \<Rightarrow> Inl e | Inr x \<Rightarrow> f x)"

text \<open>
  \<open>try: m except: h\<close> with a handler that catches every exception: the handler's result
  replaces an exception, and \<open>NotRepresented\<close> passes through.
\<close>

definition handled :: "error + 'a \<Rightarrow> (error + 'a) \<Rightarrow> error + 'a" where
  "handled m h =
     (case m of Inl e \<Rightarrow> (if e = NotRepresented then Inl NotRepresented else h) | Inr x \<Rightarrow> Inr x)"

subsection \<open>Strings\<close>

definition rupee :: string where
  "rupee = [CHR 0xE2, CHR 0x82, CHR 0xB9]"

text \<open>The column headers of the sheets that contain the rupee sign.\<close>

definition value_header :: string where
  "value_header = ''Value ('' @ rupee @ '')''"

definition portfolio_value_header :: string where
  "portfolio_value_header = ''Portfolio Value ('' @ rupee @ '')''"

definition gold_header :: string where
  "gold_header = ''Gold ('' @ rupee @ ''/10g)''"

text \<open>\<open>pat in s\<close>\<close>

fun str_contains :: "string \<Rightarrow> string \<Rightarrow> bool" where
  "str_contains pat [] = (pat = [])"
| "str_contains pat (c # cs) =
     (take (length pat) (c # cs) = pat \<or> str_contains pat cs)"

text \<open>
  \<open>s.replace(pat, "")\<close> for a non-empty \<open>pat\<close>: the occurrences are found from the left
  and do not overlap. The counter is the number of characters of the current occurrence
  that are still to be dropped.
\<close>

fun str_remove_from :: "string \<Rightarrow> nat \<Rightarrow> string \<Rightarrow> string" where
  "str_remove_from pat k [] = []"
| "str_remove_from pat (Suc k) (c # cs) = str_remove_from pat k cs"
| "str_remove_from pat 0 (c # cs) =
     (if pat \<noteq> [] \<and> take (length pat) (c # cs) = pat
      then str_remove_from pat (length pat - 1) cs
      else c # str_remove_from pat 0 cs)"

definition str_remove :: "string \<Rightarrow> string \<Rightarrow> string" where
  "str_remove pat s = str_remove_from pat 0 s"

text \<open>
  The characters of a text: the bytes of each code point, the first byte giving their
  number. The text of a Python \<open>str\<close> is well-formed UTF-8 (a \<open>str\<close> with lone
  surrogates has none and is outside the model).
\<close>

definition utf8_width :: "char \<Rightarrow> nat" where
  "utf8_width c =
     (let b = (of_char c :: nat)
      in if b < 192 then 1 else if b < 224 then 2 else if b < 240 then 3 else 4)"

fun utf8_chars_from :: "nat \<Rightarrow> string \<Rightarrow> string \<Rightarrow> string list" where
  "utf8_chars_from k cur [] = (if cur = [] then [] else [cur])"
| "utf8_chars_from (Suc k) cur (b # bs) = utf8_chars_from k (cur @ [b]) bs"
| "utf8_chars_from 0 cur (b # bs) =
     (if cur = [] then [] else [cur]) @ utf8_chars_from (utf8_width b - 1) [b] bs"

definition utf8_chars :: "string \<Rightarrow> string list" where
  "utf8_chars s = utf8_chars_from 0 [] s"

text \<open>The code point of one character.\<close>

definition code_point :: "string \<Rightarrow> nat" where
  "code_point ch =
     (case ch of
        [] \<Rightarrow> 0
      | a # rest \<Rightarrow>
          foldl (\<lambda>n b. n * 64 + ((of_char b :: nat) - 128))
            (let b = (of_char a :: nat)
             in if b < 192 then b else if b < 224 then b - 192 else if b < 240 then b - 224
                else b - 240)
            rest)"

text \<open>
  \<open>str.isspace\<close> of a code point: the whitespace of Unicode as Python has it, which is
  U+0009 to U+000D, U+001C to U+0020, U+0085, U+00A0, U+1680, U+2000 to U+200A, U+2028,
  U+2029, U+202F, U+205F and U+3000.
\<close>

definition is_space :: "nat \<Rightarrow> bool" where
  "is_space n =
     ((9 \<le> n \<and> n \<le> 13) \<or> (28 \<le> n \<and> n \<le> 32) \<or> n = 133 \<or> n = 160 \<or> n = 5760
      \<or> (8192 \<le> n \<and> n \<le> 8202) \<or> n = 8232 \<or> n = 8233 \<or> n = 8239 \<or> n = 8287
      \<or> n = 12288)"

text \<open>\<open>s.strip()\<close>\<close>

definition strip :: "string \<Rightarrow> string" where
  "strip s =
     concat (rev (dropWhile (\<lambda>ch. is_space (code_point ch))
                   (rev (dropWhile (\<lambda>ch. is_space (code_point ch)) (utf8_chars s)))))"

text \<open>\<open>s[:n]\<close>\<close>

definition str_take :: "nat \<Rightarrow> string \<Rightarrow> string" where
  "str_take n s = concat (take n (utf8_chars s))"

text \<open>\<open>s.lower()\<close> on the ASCII letters; other bytes are left as they are.\<close>

definition lower_char :: "char \<Rightarrow> char" where
  "lower_char c =
     (case map_of (zip ''ABCDEFGHIJKLMNOPQRSTUVWXYZ'' ''abcdefghijklmnopqrstuvwxyz'') c of
        Some l \<Rightarrow> l
      | None \<Rightarrow> c)"

definition lower :: "string \<Rightarrow> string" where
  "lower s = map lower_char s"

subsection \<open>Numbers and their text\<close>

definition is_digit :: "char \<Rightarrow> bool" where
  "is_digit c = (let n = (of_char c :: nat) in 48 \<le> n \<and> n \<le> 57)"

definition digit_val :: "char \<Rightarrow> nat" where
  "digit_val c = (of_char c :: nat) - 48"

definition nat_of_digits :: "string \<Rightarrow> nat" where
  "nat_of_digits ds = foldl (\<lambda>a c. 10 * a + digit_val c) 0 ds"

text \<open>The decimal digits of a natural number, as \<open>str(n)\<close> writes them.\<close>

fun digits_of_nat :: "nat \<Rightarrow> string" where
  "digits_of_nat n =
     (if n < 10 then [''0123456789'' ! n]
      else digits_of_nat (n div 10) @ [''0123456789'' ! (n mod 10)])"

declare digits_of_nat.simps [simp del]

definition str_of_int :: "int \<Rightarrow> string" where
  "str_of_int i = (if i < 0 then CHR ''-'' # digits_of_nat (nat (- i)) else digits_of_nat (nat i))"

text \<open>
  What \<open>float\<close> returns: a finite number, an infinity or a NaN. Only the finite numbers
  are values of the model; the other two are told apart because \<open>int\<close> raises
  OverflowError on the one and ValueError on the other.
\<close>

datatype float_result = Finite real | Infinite | NotANumber

text \<open>
  \<open>float(s)\<close> for a string \<open>s\<close>, after CPython's \<open>float_from_string\<close>; \<open>None\<close>
  stands for ValueError.
  \<^enum> Every character from U+007F on is replaced: a whitespace character by a space, a
    decimal digit of any script by its ASCII digit, anything else by \<open>?\<close>, which no
    number contains. The decimal digits are those of Unicode 14.0, the table of
    Python 3.11: each entry of \<open>decimal_zeros\<close> is the zero of ten consecutive digits.
  \<^enum> The whitespace of C (tab to carriage return, and the space) is stripped from both
    ends; U+001C to U+001F are not.
  \<^enum> An underscore is dropped when it stands between two digits, and is an error
    anywhere else.
  \<^enum> What is left is an optional sign and then \<open>inf\<close>, \<open>infinity\<close> or \<open>nan\<close> in any
    case, or a mantissa of digits with at most one point and at least one digit and an
    optional exponent \<open>e\<close> or \<open>E\<close> with optional sign and at least one digit.
  \<^enum> A number too large for a double, from \<open>2\<^sup>1\<^sup>0\<^sup>2\<^sup>4 - 2\<^sup>9\<^sup>7\<^sup>0\<close> on, is an infinity.
\<close>

definition decimal_zeros :: "nat list" where
  "decimal_zeros =
     [0x660, 0x6F0, 0x7C0, 0x966, 0x9E6, 0xA66, 0xAE6, 0xB66, 0xBE6, 0xC66, 0xCE6, 0xD66,
      0xDE6, 0xE50, 0xED0, 0xF20, 0x1040, 0x1090, 0x17E0, 0x1810, 0x1946, 0x19D0, 0x1A80,
      0x1A90, 0x1B50, 0x1BB0, 0x1C40, 0x1C50, 0xA620, 0xA8D0, 0xA900, 0xA9D0, 0xA9F0,
      0xAA50, 0xABF0, 0xFF10, 0x104A0, 0x10D30, 0x11066, 0x110F0, 0x11136, 0x111D0,
      0x112F0, 0x11450, 0x114D0, 0x11650, 0x116C0, 0x11730, 0x118E0, 0x11950, 0x11C50,
      0x11D50, 0x11DA0, 0x16A60, 0x16AC0, 0x16B50, 0x1D7CE, 0x1D7D8, 0x1D7E2, 0x1D7EC,
      0x1D7F6, 0x1E140, 0x1E2F0, 0x1E950, 0x1FBF0]"

definition decimal_of :: "nat \<Rightarrow> nat option" where
  "decimal_of n =
     (case filter (\<lambda>z. z \<le> n \<and> n < z + 10) decimal_zeros of
        [] \<Rightarrow> None
      | z # _ \<Rightarrow> Some (n - z))"

definition to_ascii :: "string \<Rightarrow> char" where
  "to_ascii ch =
     (case ch of
        [c] \<Rightarrow> if (of_char c :: nat) < 127 then c else CHR ''?''
      | _ \<Rightarrow>
          if is_space (code_point ch) then CHR '' ''
          else (case decimal_of (code_point ch) of
                  Some d \<Rightarrow> ''0123456789'' ! d
                | None \<Rightarrow> CHR ''?''))"

definition is_c_space :: "char \<Rightarrow> bool" where
  "is_c_space c = (c \<in> set [CHR 0x09, CHR 0x0A, CHR 0x0B, CHR 0x0C, CHR 0x0D, CHR 0x20])"

definition c_strip :: "string \<Rightarrow> string" where
  "c_strip s = rev (dropWhile is_c_space (rev (dropWhile is_c_space s)))"

text \<open>The first argument is the character before, initially NUL.\<close>

fun drop_underscores :: "char \<Rightarrow> string \<Rightarrow> string option" where
  "drop_underscores prev [] = (if prev = CHR ''_'' then None else Some [])"
| "drop_underscores prev (c # cs) =
     (if c = CHR ''_'' then (if is_digit prev then drop_underscores c cs else None)
      else if prev = CHR ''_'' \<and> \<not> is_digit c then None
      else map_option ((#) c) (drop_underscores c cs))"

definition parse_mantissa :: "string \<Rightarrow> real option" where
  "parse_mantissa m =
     (let ip = takeWhile (\<lambda>c. c \<noteq> CHR ''.'') m;
          rest = dropWhile (\<lambda>c. c \<noteq> CHR ''.'') m;
          fp = (case rest of [] \<Rightarrow> [] | _ # t \<Rightarrow> t)
      in if list_all is_digit (ip @ fp) \<and> ip @ fp \<noteq> []
         then Some (real (nat_of_digits (ip @ fp)) / 10 ^ length fp)
         else None)"

definition parse_exponent :: "string \<Rightarrow> int option" where
  "parse_exponent e =
     (let (neg, ds) = (case e of
                         c # t \<Rightarrow> if c = CHR ''-'' then (True, t)
                                  else if c = CHR ''+'' then (False, t) else (False, e)
                       | [] \<Rightarrow> (False, e))
      in if list_all is_digit ds \<and> ds \<noteq> []
         then Some (if neg then - int (nat_of_digits ds) else int (nat_of_digits ds))
         else None)"

definition is_exp_mark :: "char \<Rightarrow> bool" where
  "is_exp_mark c = (c = CHR ''e'' \<or> c = CHR ''E'')"

definition parse_decimal :: "string \<Rightarrow> real option" where
  "parse_decimal u =
     (let m = takeWhile (\<lambda>c. \<not> is_exp_mark c) u;
          rest = dropWhile (\<lambda>c. \<not> is_exp_mark c) u
      in case parse_mantissa m of
           None \<Rightarrow> None
         | Some v \<Rightarrow>
             (case rest of
                [] \<Rightarrow> Some v
              | _ # e \<Rightarrow>
                  (case parse_exponent e of
                     None \<Rightarrow> None
                   | Some k \<Rightarrow> Some (if k < 0 then v / 10 ^ nat (- k) else v * 10 ^ nat k))))"

definition float_overflow :: real where
  "float_overflow = 2 ^ 1024 - 2 ^ 970"

definition overflows :: "real \<Rightarrow> bool" where
  "overflows v = (float_overflow \<le> v)"

definition parse_unsigned :: "string \<Rightarrow> float_result option" where
  "parse_unsigned u =
     (if lower u = ''inf'' \<or> lower u = ''infinity'' then Some Infinite
      else if lower u = ''nan'' then Some NotANumber
      else map_option (\<lambda>v. if overflows v then Infinite else Finite v)
             (parse_decimal u))"

definition negated :: "float_result \<Rightarrow> float_result" where
  "negated x = (case x of Finite v \<Rightarrow> Finite (- v) | _ \<Rightarrow> x)"

definition float_of_str :: "string \<Rightarrow> float_result option" where
  "float_of_str s =
     (case drop_underscores (CHR 0x00) (c_strip (map to_ascii (utf8_chars s))) of
        None \<Rightarrow> None
      | Some [] \<Rightarrow> None
      | Some (c # t) \<Rightarrow>
          if c = CHR ''-'' then map_option negated (parse_unsigned t)
          else if c = CHR ''+'' then parse_unsigned t
          else parse_unsigned (c # t))"

subsection \<open>Spreadsheet cells and the builtins applied to them\<close>

text \<open>
  A cell of a frame as \<open>iter_rows(named=True)\<close> hands it over: \<open>None\<close> for a blank
  cell, a bool, an int, a float, a str, or a date. A date cell carries its ISO text
  \<open>YYYY-MM-DD\<close>, which is both \<open>strftime("%Y-%m-%d")\<close> and \<open>str\<close> of a
  \<open>datetime.date\<close>.
\<close>

datatype cell = CNone | CBool bool | CInt int | CFloat real | CStr string | CDate string

text \<open>Truth value of a cell, as \<open>if x\<close>, \<open>not x\<close> and \<open>x or y\<close> test it.\<close>

definition truthy :: "cell \<Rightarrow> bool" where
  "truthy c =
     (case c of
        CNone \<Rightarrow> False
      | CBool b \<Rightarrow> b
      | CInt i \<Rightarrow> i \<noteq> 0
      | CFloat f \<Rightarrow> f \<noteq> 0
      | CStr s \<Rightarrow> s \<noteq> []
      | CDate d \<Rightarrow> True)"

definition py_or :: "cell \<Rightarrow> cell \<Rightarrow> cell" where
  "py_or a b = (if truthy a then a else b)"

text \<open>\<open>float(x)\<close>\<close>

definition py_float :: "cell \<Rightarrow> error + real" where
  "py_float c =
     (case c of
        CNone \<Rightarrow> Inl TypeError
      | CBool b \<Rightarrow> Inr (if b then 1 else 0)
      | CInt i \<Rightarrow> Inr (real_of_int i)
      | CFloat f \<Rightarrow> Inr f
      | CStr s \<Rightarrow> (case float_of_str s of
                    None \<Rightarrow> Inl ValueError
                  | Some (Finite v) \<Rightarrow> Inr v
                  | Some _ \<Rightarrow> Inl NotRepresented)
      | CDate d \<Rightarrow> Inl TypeError)"

text \<open>\<open>abs(x)\<close>\<close>

definition py_abs :: "cell \<Rightarrow> error + real" where
  "py_abs c =
     (case c of
        CNone \<Rightarrow> Inl TypeError
      | CBool b \<Rightarrow> Inr (if b then 1 else 0)
      | CInt i \<Rightarrow> Inr \<bar>real_of_int i\<bar>
      | CFloat f \<Rightarrow> Inr \<bar>f\<bar>
      | CStr s \<Rightarrow> Inl TypeError
      | CDate d \<Rightarrow> Inl TypeError)"

text \<open>\<open>int(x)\<close> of a float: truncation towards zero.\<close>

definition py_int :: "real \<Rightarrow> int" where
  "py_int x = (if 0 \<le> x then \<lfloor>x\<rfloor> else \<lceil>x\<rceil>)"

text \<open>\<open>int(float(x))\<close>: \<open>int\<close> raises on an infinity and on a NaN.\<close>

definition py_int_float :: "cell \<Rightarrow> error + int" where
  "py_int_float x =
     (case x of
        CStr s \<Rightarrow> (case float_of_str s of
                    None \<Rightarrow> Inl ValueError
                  | Some (Finite v) \<Rightarrow> Inr (py_int v)
                  | Some Infinite \<Rightarrow> Inl OverflowError
                  | Some NotANumber \<Rightarrow> Inl ValueError)
      | _ \<Rightarrow> bind_err (py_float x) (\<lambda>f. Inr (py_int f)))"

text \<open>
  \<open>str(x)\<close>. The text of a float (its shortest repr) is not a function of the real
  number alone, so it is a parameter \<open>float_repr\<close> of everything that calls \<open>str\<close>.
\<close>

definition py_str :: "(real \<Rightarrow> string) \<Rightarrow> cell \<Rightarrow> string" where
  "py_str float_repr c =
     (case c of
        CNone \<Rightarrow> ''None''
      | CBool b \<Rightarrow> (if b then ''True'' else ''False'')
      | CInt i \<Rightarrow> str_of_int i
      | CFloat f \<Rightarrow> float_repr f
      | CStr s \<Rightarrow> s
      | CDate d \<Rightarrow> d)"

text \<open>
  \<open>round(x, n)\<close>: Python rounds to the nearest multiple of \<open>10\<^sup>-\<^sup>n\<close>, a tie going to
  the even neighbour.
\<close>

definition round_half_even :: "real \<Rightarrow> int" where
  "round_half_even x =
     (let f = \<lfloor>x\<rfloor>; d = x - real_of_int f
      in if d < 1 / 2 then f else if 1 / 2 < d then f + 1 else if even f then f else f + 1)"

definition py_round :: "real \<Rightarrow> nat \<Rightarrow> real" where
  "py_round x n = real_of_int (round_half_even (x * 10 ^ n)) / 10 ^ n"

text \<open>\<open>a / b\<close> on floats\<close>

definition py_div :: "real \<Rightarrow> real \<Rightarrow> error + real" where
  "py_div a b = (if b = 0 then Inl ZeroDivisionError else Inr (a / b))"

text \<open>\<open>xs[i]\<close>, a negative index counting from the end.\<close>

definition py_index :: "'a list \<Rightarrow> int \<Rightarrow> error + 'a" where
  "py_index xs i =
     (if 0 \<le> i \<and> i < int (length xs) then Inr (xs ! nat i)
      else if i < 0 \<and> - int (length xs) \<le> i then Inr (xs ! nat (int (length xs) + i))
      else Inl IndexError)"

subsection \<open>Frames and named rows\<close>

text \<open>
  A frame as \<open>pl.read_excel\<close> returns it: column names, which polars keeps distinct, and
  rows with one cell per column. \<open>iter_rows(named=True)\<close> yields each row as a dict from
  column name to cell.
\<close>

record frame =
  columns :: "string list"
  rows :: "cell list list"

type_synonym row = "string \<Rightarrow> cell option"

definition iter_rows :: "frame \<Rightarrow> row list" where
  "iter_rows df = map (\<lambda>r. map_of (zip (columns df) r)) (rows df)"

text \<open>
  \<open>df.rename(mapping)\<close>: every old name must be a column (ColumnNotFoundError
  otherwise), and the new names must stay distinct (DuplicateError otherwise).
\<close>

definition rename :: "(string \<times> string) list \<Rightarrow> frame \<Rightarrow> error + frame" where
  "rename mapping df =
     (if list_ex (\<lambda>old. old \<notin> set (columns df)) (map fst mapping) then Inl ColumnNotFoundError
      else let cols = map (\<lambda>c. case map_of mapping c of Some n \<Rightarrow> n | None \<Rightarrow> c) (columns df)
           in if distinct cols then Inr (df\<lparr>columns := cols\<rparr>) else Inl DuplicateError)"

text \<open>\<open>row.get(k)\<close>, \<open>row.get(k, d)\<close> and \<open>row[k]\<close>\<close>

definition get :: "row \<Rightarrow> string \<Rightarrow> cell" where
  "get r k = (case r k of None \<Rightarrow> CNone | Some c \<Rightarrow> c)"

definition get_default :: "row \<Rightarrow> string \<Rightarrow> cell \<Rightarrow> cell" where
  "get_default r k d = (case r k of None \<Rightarrow> d | Some c \<Rightarrow> c)"

definition item :: "row \<Rightarrow> string \<Rightarrow> error + cell" where
  "item r k = (case r k of None \<Rightarrow> Inl KeyError | Some c \<Rightarrow> Inr c)"

text \<open>
  A loop over rows that appends to a list, and one that stores into a dict; the body
  yields \<open>None\<close> for a row it passes over, and an exception it raises ends the loop.
\<close>

fun collect_rows :: "(row \<Rightarrow> error + 'a option) \<Rightarrow> row list \<Rightarrow> error + 'a list" where
  "collect_rows f [] = Inr []"
| "collect_rows f (r # rs) =
     bind_err (f r) (\<lambda>x. bind_err (collect_rows f rs)
       (\<lambda>xs. Inr (case x of None \<Rightarrow> xs | Some y \<Rightarrow> y # xs)))"

fun build_dict ::
  "(row \<Rightarrow> error + ('k \<times> 'v) option) \<Rightarrow> row list \<Rightarrow> ('k \<times> 'v) list \<Rightarrow> error + ('k \<times> 'v) list" where
  "build_dict f [] d = Inr d"
| "build_dict f (r # rs) d =
     bind_err (f r)
       (\<lambda>e. build_dict f rs (case e of None \<Rightarrow> d | Some (k, v) \<Rightarrow> AList.update k v d))"

subsection \<open>The snapshot \<open>DATA_CACHE\<close>\<close>

text \<open>
  One holdings record, the dict built at lines 197-214. The key \<open>"value"\<close> is the field
  \<open>hvalue\<close> here, and \<open>avalue\<close> in an allocation bucket.
\<close>

record holding =
  symbol :: string
  name :: string
  quantity :: int
  avgPrice :: real
  currentPrice :: real
  sector :: string
  marketCap :: string
  hvalue :: real
  gainLoss :: real
  gainLossPercent :: real

record performance_point =
  date :: string
  portfolio :: real
  nifty50 :: real
  gold :: real

text \<open>An allocation bucket \<open>{"value": ..., "percentage": ...}\<close>.\<close>

record allocation =
  avalue :: real
  percentage :: real

text \<open>A Top_Performers entry \<open>{"symbol": ..., "name": ..., "performance": ...}\<close>.\<close>

record performer_entry =
  entry_symbol :: cell
  entry_name :: cell
  performance :: cell

text \<open>
  The six tables of the cache; \<open>None\<close> is Python's \<open>None\<close>, the initial value. The
  keys of the four dicts are the cells of the key column as they were read.
\<close>

record data_cache =
  holdings :: "holding list option"
  historical_performance :: "performance_point list option"
  sector_allocation :: "(cell \<times> allocation) list option"
  market_cap :: "(cell \<times> allocation) list option"
  top_performers :: "(cell \<times> performer_entry) list option"
  summary :: "(cell \<times> cell) list option"

definition empty_cache :: data_cache where
  "empty_cache =
     \<lparr>holdings = None, historical_performance = None, sector_allocation = None,
      market_cap = None, top_performers = None, summary = None\<rparr>"

subsection \<open>The source file\<close>

text \<open>
  What the file system and the spreadsheet readers answer during one call of
  \<open>load_excel_data\<close>: whether the file exists, and for each sheet the frame read or the
  exception raised. The Holdings sheet is read with polars and, when that fails, with
  pandas.
\<close>

record source =
  file_exists :: bool
  holdings_polars :: "error + frame"
  holdings_pandas :: "error + frame"
  performance_sheet :: "error + frame"
  sector_sheet :: "error + frame"
  market_cap_sheet :: "error + frame"
  summary_sheet :: "error + frame"
  top_performers_sheet :: "error + frame"

subsection \<open>Loading the Holdings sheet (lines 119-221)\<close>

text \<open>The \<open>if/elif\<close> chain of lines 147-162 for one column name.\<close>

definition column_target :: "string \<Rightarrow> string option" where
  "column_target col =
     (let col_lower = strip (lower col) in
      if str_contains ''avg'' col_lower \<and> str_contains ''price'' col_lower then Some ''avg_price''
      else if str_contains ''current'' col_lower \<and> str_contains ''price'' col_lower
        then Some ''current_price''
      else if str_contains ''value'' col_lower \<and> str_contains rupee col then Some ''value''
      else if str_contains ''gain'' col_lower \<and> str_contains ''loss'' col_lower
              \<and> str_contains rupee col then Some ''gain_loss''
      else if str_contains ''gain'' col_lower \<and> str_contains ''loss'' col_lower
              \<and> str_contains ''%'' col then Some ''gain_loss_percent''
      else if str_contains ''company'' col_lower \<and> str_contains ''name'' col_lower
        then Some ''company_name''
      else if str_contains ''market'' col_lower \<and> str_contains ''cap'' col_lower
        then Some ''market_cap''
      else None)"

definition column_mapping :: "string list \<Rightarrow> (string \<times> string) list" where
  "column_mapping cols = List.map_filter (\<lambda>col. map_option (Pair col) (column_target col)) cols"

text \<open>Lines 165-166: one \<open>rename\<close> per entry of the mapping, in order.\<close>

fun apply_renames :: "(string \<times> string) list \<Rightarrow> frame \<Rightarrow> error + frame" where
  "apply_renames [] df = Inr df"
| "apply_renames ((old_name, new_name) # m) df =
     bind_err (rename [(old_name, new_name)] df) (apply_renames m)"

text \<open>\<open>float(x) if x else 0.0\<close>\<close>

definition float_or_zero :: "cell \<Rightarrow> error + real" where
  "float_or_zero x = (if truthy x then py_float x else Inr 0)"

text \<open>\<open>int(float(x)) if x else 0\<close>\<close>

definition int_or_zero :: "cell \<Rightarrow> error + int" where
  "int_or_zero x = (if truthy x then py_int_float x else Inr 0)"

text \<open>Lines 208-212, the normalisation of the raw \<open>gain_loss_percent\<close> cell.\<close>

definition normalize_gain_loss_percent :: "cell \<Rightarrow> error + real" where
  "normalize_gain_loss_percent g =
     bind_err (if truthy g then bind_err (py_abs g) (\<lambda>a. Inr (a \<le> 1)) else Inr False)
       (\<lambda>fraction.
          if fraction then bind_err (py_float g) (\<lambda>f. Inr (f * 100))
          else if truthy g then py_float g
          else Inr 0)"

text \<open>
  The body of the row loop, lines 173-214: \<open>Inr None\<close> when the row has no symbol
  (\<open>continue\<close>), \<open>Inl e\<close> when a conversion raises.
\<close>

definition holding_of_row :: "(real \<Rightarrow> string) \<Rightarrow> row \<Rightarrow> error + holding option" where
  "holding_of_row float_repr r =
     (let symbol = py_or (get r ''Symbol'') (get r ''symbol'') in
      if \<not> truthy symbol then Inr None
      else
        let company_name = py_or (py_or (get r ''company_name'') (get r ''Company Name''))
                                 (get_default r ''name'' (CStr []));
            quantity = py_or (get r ''Quantity'') (get_default r ''quantity'' (CInt 0));
            avg_price = py_or (get r ''avg_price'') (get_default r ''avgPrice'' (CInt 0));
            current_price = py_or (get r ''current_price'') (get_default r ''currentPrice'' (CInt 0));
            sector = py_or (get r ''Sector'') (get_default r ''sector'' (CStr []));
            market_cap = py_or (get r ''market_cap'') (get_default r ''Market Cap'' (CStr []));
            value = py_or (get r ''value'') (get_default r ''Value'' (CInt 0));
            gain_loss = py_or (get r ''gain_loss'') (get_default r ''gainLoss'' (CInt 0));
            gain_loss_percent =
              py_or (get r ''gain_loss_percent'') (get_default r ''gainLossPercent'' (CInt 0))
        in
          bind_err (int_or_zero quantity) (\<lambda>q.
          bind_err (float_or_zero avg_price) (\<lambda>ap.
          bind_err (float_or_zero current_price) (\<lambda>cp.
          bind_err (float_or_zero value) (\<lambda>v.
          bind_err (float_or_zero gain_loss) (\<lambda>gl.
          bind_err (normalize_gain_loss_percent gain_loss_percent) (\<lambda>glp.
            Inr (Some \<lparr>symbol = py_str float_repr symbol,
                       name = py_str float_repr company_name,
                       quantity = q, avgPrice = ap, currentPrice = cp,
                       sector = py_str float_repr sector,
                       marketCap = py_str float_repr market_cap,
                       hvalue = v, gainLoss = gl, gainLossPercent = glp\<rparr>))))))))"

text \<open>
  The row loop with its \<open>try/except ... continue\<close>: a row whose conversion raises is
  passed over like a row without symbol.
\<close>

fun holdings_rows :: "(real \<Rightarrow> string) \<Rightarrow> row list \<Rightarrow> error + holding list" where
  "holdings_rows float_repr [] = Inr []"
| "holdings_rows float_repr (r # rs) =
     bind_err (handled (holding_of_row float_repr r) (Inr None)) (\<lambda>x.
     bind_err (holdings_rows float_repr rs) (\<lambda>hs.
       Inr (case x of None \<Rightarrow> hs | Some h \<Rightarrow> h # hs)))"

definition read_holdings :: "source \<Rightarrow> error + frame" where
  "read_holdings src =
     (case holdings_polars src of
        Inr df \<Rightarrow> Inr df
      | Inl e \<Rightarrow> (case holdings_pandas src of Inr df \<Rightarrow> Inr df | Inl e2 \<Rightarrow> Inl e2))"

definition load_holdings :: "(real \<Rightarrow> string) \<Rightarrow> source \<Rightarrow> error + holding list" where
  "load_holdings float_repr src =
     bind_err (read_holdings src) (\<lambda>holdings_df.
     bind_err (apply_renames (column_mapping (columns holdings_df)) holdings_df) (\<lambda>df.
       holdings_rows float_repr (iter_rows df)))"

subsection \<open>Loading the other sheets (lines 223-359)\<close>

text \<open>
  Historical_Performance, lines 238-259. Nothing catches an exception here: a cell that
  \<open>float\<close> rejects ends the whole load.
\<close>

definition performance_of_row ::
  "(real \<Rightarrow> string) \<Rightarrow> row \<Rightarrow> error + performance_point option" where
  "performance_of_row float_repr r =
     (let date_val = py_or (get r ''Date'') (get r ''date'') in
      if truthy date_val then
        let date_str = (case date_val of CDate d \<Rightarrow> d | _ \<Rightarrow> str_take 10 (py_str float_repr date_val))
        in
          bind_err (if truthy (get r ''portfolio_value'')
                    then py_float (get_default r ''portfolio_value'' (CInt 0)) else Inr 0) (\<lambda>p.
          bind_err (if truthy (get r ''nifty50'')
                    then py_float (get_default r ''nifty50'' (CInt 0)) else Inr 0) (\<lambda>n.
          bind_err (if truthy (get r ''gold'')
                    then py_float (get_default r ''gold'' (CInt 0)) else Inr 0) (\<lambda>g.
            Inr (Some \<lparr>date = date_str, portfolio = p, nifty50 = n, gold = g\<rparr>))))
      else Inr None)"

definition load_performance :: "(real \<Rightarrow> string) \<Rightarrow> source \<Rightarrow> error + performance_point list" where
  "load_performance float_repr src =
     bind_err (performance_sheet src) (\<lambda>performance_df.
     bind_err (rename [(portfolio_value_header, ''portfolio_value''),
                       (''Nifty 50'', ''nifty50''),
                       (gold_header, ''gold'')] performance_df) (\<lambda>df.
       collect_rows (performance_of_row float_repr) (iter_rows df)))"

text \<open>\<open>float(row["Percentage"]) * 100 if row["Percentage"] else 0.0\<close>, lines 277 and 305.\<close>

definition percentage_of_cell :: "cell \<Rightarrow> error + real" where
  "percentage_of_cell p = (if truthy p then bind_err (py_float p) (\<lambda>f. Inr (f * 100)) else Inr 0)"

text \<open>Sector_Allocation, lines 272-279.\<close>

definition sector_of_row :: "row \<Rightarrow> error + (cell \<times> allocation) option" where
  "sector_of_row r =
     bind_err (item r ''Sector'') (\<lambda>s.
       if truthy s then
         bind_err (item r ''value'') (\<lambda>v.
         bind_err (float_or_zero v) (\<lambda>value.
         bind_err (item r ''Percentage'') (\<lambda>p.
         bind_err (percentage_of_cell p) (\<lambda>pct.
           Inr (Some (s, \<lparr>avalue = value, percentage = pct\<rparr>))))))
       else Inr None)"

definition read_sector_allocation :: "source \<Rightarrow> error + frame" where
  "read_sector_allocation src =
     bind_err (sector_sheet src) (rename [(value_header, ''value'')])"

definition load_sector_allocation :: "source \<Rightarrow> error + (cell \<times> allocation) list" where
  "load_sector_allocation src =
     bind_err (read_sector_allocation src) (\<lambda>sector_df.
       build_dict sector_of_row (iter_rows sector_df) [])"

text \<open>\<open>str(x).replace(",", "").replace("\<dots>", "").strip()\<close> with the rupee sign, line 296.\<close>

definition clean_number :: "string \<Rightarrow> string" where
  "clean_number s = strip (str_remove rupee (str_remove '','' s))"

text \<open>
  Lines 296-300: the value of a Market_Cap row. \<open>market_cap_value_try\<close> is the body of
  the \<open>try\<close>, \<open>parse_market_cap_value\<close> the whole statement with its bare \<open>except\<close>.
\<close>

definition market_cap_value_try :: "string \<Rightarrow> error + real" where
  "market_cap_value_try value_str =
     (if value_str \<noteq> [] \<and> value_str \<noteq> ''0'' then py_float (CStr value_str) else Inr 0)"

definition parse_market_cap_value :: "(real \<Rightarrow> string) \<Rightarrow> cell \<Rightarrow> error + real" where
  "parse_market_cap_value float_repr c =
     (let value_str = clean_number (py_str float_repr c) in
      handled (market_cap_value_try value_str) (Inr 0))"

text \<open>Market_Cap, lines 293-307.\<close>

definition market_cap_of_row :: "(real \<Rightarrow> string) \<Rightarrow> row \<Rightarrow> error + (cell \<times> allocation) option" where
  "market_cap_of_row float_repr r =
     bind_err (item r ''market_cap'') (\<lambda>m.
       if truthy m then
         bind_err (item r ''value'') (\<lambda>v.
         bind_err (parse_market_cap_value float_repr v) (\<lambda>value.
         bind_err (item r ''Percentage'') (\<lambda>p.
         bind_err (percentage_of_cell p) (\<lambda>pct.
           Inr (Some (m, \<lparr>avalue = value, percentage = pct\<rparr>))))))
       else Inr None)"

definition read_market_cap :: "source \<Rightarrow> error + frame" where
  "read_market_cap src =
     bind_err (market_cap_sheet src)
       (rename [(''Market Cap'', ''market_cap''), (value_header, ''value'')])"

definition load_market_cap :: "(real \<Rightarrow> string) \<Rightarrow> source \<Rightarrow> error + (cell \<times> allocation) list" where
  "load_market_cap float_repr src =
     bind_err (read_market_cap src) (\<lambda>market_cap_df.
       build_dict (market_cap_of_row float_repr) (iter_rows market_cap_df) [])"

text \<open>Summary, lines 317-330: a string value is cleaned and, when it parses, replaced by the float.\<close>

definition summary_of_row :: "row \<Rightarrow> error + (cell \<times> cell) option" where
  "summary_of_row r =
     bind_err (item r ''Metric'') (\<lambda>m.
       if truthy m then
         bind_err (item r ''Value'') (\<lambda>v.
         bind_err (case v of
                     CStr s \<Rightarrow> handled (bind_err (py_float (CStr (clean_number s)))
                                          (\<lambda>f. Inr (CFloat f)))
                                 (Inr (CStr (clean_number s)))
                   | _ \<Rightarrow> Inr v) (\<lambda>value.
           Inr (Some (m, value))))
       else Inr None)"

definition load_summary :: "source \<Rightarrow> error + (cell \<times> cell) list" where
  "load_summary src =
     bind_err (summary_sheet src) (\<lambda>summary_df. build_dict summary_of_row (iter_rows summary_df) [])"

text \<open>Top_Performers, lines 340-357: a string that does not parse is kept as it was.\<close>

definition top_performer_of_row :: "row \<Rightarrow> error + (cell \<times> performer_entry) option" where
  "top_performer_of_row r =
     bind_err (item r ''Metric'') (\<lambda>metric.
       if truthy metric then
         bind_err (item r ''Performance'') (\<lambda>perf0.
         bind_err (case perf0 of
                     CStr s \<Rightarrow> handled (bind_err (py_float (CStr (clean_number s)))
                                          (\<lambda>f. Inr (CFloat f)))
                                 (Inr perf0)
                   | _ \<Rightarrow> Inr perf0) (\<lambda>perf.
         bind_err (item r ''Symbol'') (\<lambda>sy.
         bind_err (item r ''Company Name'') (\<lambda>nm.
           Inr (Some (metric, \<lparr>entry_symbol = sy, entry_name = nm, performance = perf\<rparr>))))))
       else Inr None)"

definition load_top_performers :: "source \<Rightarrow> error + (cell \<times> performer_entry) list" where
  "load_top_performers src =
     bind_err (top_performers_sheet src) (\<lambda>top_performers_df.
       build_dict top_performer_of_row (iter_rows top_performers_df) [])"

subsection \<open>\<open>load_excel_data\<close> (lines 109-366)\<close>

text \<open>
  The cache is an argument and a result. Each table is stored as soon as its sheet has
  been parsed (lines 221, 262, 281, 309, 332, 359); any exception ends the call with
  \<open>False\<close> and the cache as it then is. \<open>failed\<close> is that end of a call, the handlers
  of lines 137-139 and 364-366.
\<close>

definition failed :: "error \<Rightarrow> data_cache \<Rightarrow> (bool \<times> data_cache) option" where
  "failed e cache = (if e = NotRepresented then None else Some (False, cache))"

definition load_excel_data ::
  "(real \<Rightarrow> string) \<Rightarrow> source \<Rightarrow> data_cache \<Rightarrow> (bool \<times> data_cache) option" where
  "load_excel_data float_repr src cache =
     (if \<not> file_exists src then Some (False, cache)
      else
       (case load_holdings float_repr src of
          Inl e \<Rightarrow> failed e cache
        | Inr holdings_data \<Rightarrow>
           (let c1 = cache\<lparr>holdings := Some holdings_data\<rparr> in
            (case load_performance float_repr src of
               Inl e \<Rightarrow> failed e c1
             | Inr performance_data \<Rightarrow>
                (let c2 = c1\<lparr>historical_performance := Some performance_data\<rparr> in
                 (case load_sector_allocation src of
                    Inl e \<Rightarrow> failed e c2
                  | Inr sector_data \<Rightarrow>
                     (let c3 = c2\<lparr>sector_allocation := Some sector_data\<rparr> in
                      (case load_market_cap float_repr src of
                         Inl e \<Rightarrow> failed e c3
                       | Inr market_cap_data \<Rightarrow>
                          (let c4 = c3\<lparr>market_cap := Some market_cap_data\<rparr> in
                           (case load_summary src of
                              Inl e \<Rightarrow> failed e c4
                            | Inr summary_data \<Rightarrow>
                               (let c5 = c4\<lparr>summary := Some summary_data\<rparr> in
                                (case load_top_performers src of
                                   Inl e \<Rightarrow> failed e c5
                                 | Inr top_performers_data \<Rightarrow>
                                    Some (True, c5\<lparr>top_performers :=
                                                     Some top_performers_data\<rparr>)))))))))))))"

text \<open>\<open>ensure_data_loaded\<close>, lines 369-376.\<close>

definition ensure_data_loaded ::
  "(real \<Rightarrow> string) \<Rightarrow> source \<Rightarrow> data_cache \<Rightarrow> ((error + unit) \<times> data_cache) option" where
  "ensure_data_loaded float_repr src cache =
     (if holdings cache = None then
        (case load_excel_data float_repr src cache of
           None \<Rightarrow> None
         | Some (success, cache') \<Rightarrow>
             if \<not> success then Some (Inl (HTTPException 500), cache') else Some (Inr (), cache'))
      else Some (Inr (), cache))"

text \<open>
  \<open>get_portfolio_holdings\<close>, lines 561-597. The 404 raised for an empty list is an
  \<open>Exception\<close> too, so the handler of line 594 turns it into a 500.
\<close>

definition get_portfolio_holdings ::
  "(real \<Rightarrow> string) \<Rightarrow> source \<Rightarrow> data_cache \<Rightarrow> ((error + holding list) \<times> data_cache) option" where
  "get_portfolio_holdings float_repr src cache =
     (case ensure_data_loaded float_repr src cache of
        None \<Rightarrow> None
      | Some (loaded, cache') \<Rightarrow>
          Some (handled
                  (bind_err loaded (\<lambda>_.
                     case holdings cache' of
                       None \<Rightarrow> Inl (HTTPException 404)
                     | Some holdings_data \<Rightarrow>
                         if holdings_data = [] then Inl (HTTPException 404)
                         else Inr (map (\<lambda>h. h\<lparr>gainLossPercent := py_round (gainLossPercent h) 2\<rparr>)
                                       holdings_data)))
                  (Inl (HTTPException 500)),
                cache'))"

subsection \<open>Derived metrics (lines 380-533)\<close>

text \<open>\<open>if d:\<close> for a cache table: neither \<open>None\<close> nor empty.\<close>

definition present :: "'a list option \<Rightarrow> bool" where
  "present t = (case t of None \<Rightarrow> False | Some xs \<Rightarrow> xs \<noteq> [])"

text \<open>\<open>sum(holding["value"] for holding in holdings_data)\<close>\<close>

definition total_value :: "holding list \<Rightarrow> real" where
  "total_value hs = sum_list (map hvalue hs)"

text \<open>
  The grouping loop of lines 398-402 and 431-435, with the key that distinguishes the
  two functions as an argument: a new key starts at 0, then the value is added.
\<close>

fun group_totals :: "(holding \<Rightarrow> string) \<Rightarrow> holding list \<Rightarrow> (string \<times> real) list \<Rightarrow> (string \<times> real) list" where
  "group_totals key [] totals = totals"
| "group_totals key (h # hs) totals =
     (let totals0 = (if key h \<notin> fst ` set totals then AList.update (key h) 0 totals else totals);
          old = (case map_of totals0 (key h) of Some v \<Rightarrow> v | None \<Rightarrow> 0)
      in group_totals key hs (AList.update (key h) (old + hvalue h) totals0))"

text \<open>The dict comprehension of lines 404-409 and 437-442; the division raises when the total is 0.\<close>

fun allocation_items :: "real \<Rightarrow> (string \<times> real) list \<Rightarrow> error + (cell \<times> allocation) list" where
  "allocation_items tv [] = Inr []"
| "allocation_items tv ((k, v) # kvs) =
     bind_err (py_div v tv) (\<lambda>q.
     bind_err (allocation_items tv kvs) (\<lambda>rest.
       Inr ((CStr k, \<lparr>avalue = v, percentage = py_round (q * 100) 1\<rparr>) # rest)))"

definition fallback_allocation :: "(holding \<Rightarrow> string) \<Rightarrow> data_cache \<Rightarrow> error + (cell \<times> allocation) list" where
  "fallback_allocation key cache =
     (case holdings cache of
        None \<Rightarrow> Inr []
      | Some holdings_data \<Rightarrow>
          if holdings_data = [] then Inr []
          else allocation_items (total_value holdings_data) (group_totals key holdings_data []))"

definition calculate_allocation_by_sector :: "data_cache \<Rightarrow> error + (cell \<times> allocation) list" where
  "calculate_allocation_by_sector cache =
     (if present (sector_allocation cache) then
        Inr (map (\<lambda>(k, d). (k, \<lparr>avalue = avalue d, percentage = py_round (percentage d) 1\<rparr>))
                 (the (sector_allocation cache)))
      else fallback_allocation sector cache)"

definition calculate_allocation_by_market_cap :: "data_cache \<Rightarrow> error + (cell \<times> allocation) list" where
  "calculate_allocation_by_market_cap cache =
     (if present (market_cap cache) then
        Inr (map (\<lambda>(k, d). (k, \<lparr>avalue = avalue d, percentage = py_round (percentage d) 1\<rparr>))
                 (filter (\<lambda>(k, d). 0 < avalue d) (the (market_cap cache))))
      else fallback_allocation marketCap cache)"

text \<open>\<open>calculate_performance_returns\<close>, lines 445-483.\<close>

record performance_returns =
  month1 :: real
  months3 :: real
  year1 :: real

definition calculate_return :: "real \<Rightarrow> real \<Rightarrow> real" where
  "calculate_return current_val past_val =
     (if 0 < past_val then py_round (((current_val - past_val) / past_val) * 100) 1 else 0)"

definition returns_for ::
  "(performance_point \<Rightarrow> real) \<Rightarrow> performance_point \<Rightarrow> performance_point \<Rightarrow>
   performance_point \<Rightarrow> performance_point \<Rightarrow> performance_returns" where
  "returns_for series current month1_data months3_data year1_data =
     \<lparr>month1 = calculate_return (series current) (series month1_data),
      months3 = calculate_return (series current) (series months3_data),
      year1 = calculate_return (series current) (series year1_data)\<rparr>"

definition calculate_performance_returns :: "data_cache \<Rightarrow> (string \<times> performance_returns) list" where
  "calculate_performance_returns cache =
     (case historical_performance cache of
        None \<Rightarrow> []
      | Some timeline_data \<Rightarrow>
          if timeline_data = [] \<or> length timeline_data < 2 then []
          else
            let n = length timeline_data;
                current = timeline_data ! (n - 1);
                month1_data = (if 2 \<le> n then timeline_data ! (n - 2) else timeline_data ! 0);
                months3_data = (if 4 \<le> n then timeline_data ! nat (max 0 (int n - 4))
                                else timeline_data ! 0);
                year1_data = timeline_data ! 0
            in [(''portfolio'', returns_for portfolio current month1_data months3_data year1_data),
                (''nifty50'', returns_for nifty50 current month1_data months3_data year1_data),
                (''gold'', returns_for gold current month1_data months3_data year1_data)])"

text \<open>\<open>calculate_diversification_score\<close>, lines 486-504.\<close>

definition calculate_diversification_score :: "data_cache \<Rightarrow> real" where
  "calculate_diversification_score cache =
     (if \<not> present (holdings cache) then 5
      else
        let holdings_data = the (holdings cache);
            num_sectors = card (set (map sector holdings_data));
            num_holdings = length holdings_data;
            base_score = min (num_sectors * 2) 10;
            concentration_penalty =
              (if 10 < num_holdings then max 0 ((real num_holdings - 10) * (1 / 10)) else 0)
        in min 10 (max 1 (real base_score - concentration_penalty)))"

text \<open>\<open>determine_risk_level\<close>, lines 507-533.\<close>

definition high_risk_sectors :: "string set" where
  "high_risk_sectors = {''Technology'', ''Small Cap Stocks''}"

definition determine_risk_level :: "data_cache \<Rightarrow> real \<Rightarrow> string" where
  "determine_risk_level cache diversification_score =
     (if \<not> present (holdings cache) then ''Moderate''
      else
        let holdings_data = the (holdings cache);
            high_risk_exposure =
              sum_list (map hvalue (filter (\<lambda>h. sector h \<in> high_risk_sectors) holdings_data));
            tv = total_value holdings_data;
            high_risk_ratio = (if 0 < tv then high_risk_exposure / tv else 0)
        in if 8 \<le> diversification_score \<and> high_risk_ratio < 3 / 10 then ''Conservative''
           else if 6 \<le> diversification_score \<and> high_risk_ratio < 5 / 10 then ''Moderate''
           else ''Aggressive'')"

subsection \<open>The summary's performers derived from the holdings (lines 733-766)\<close>

text \<open>The response model \<open>TopPerformer\<close>.\<close>

record top_performer =
  tp_symbol :: string
  tp_name :: string
  gainPercent :: "real option"
  tp_value :: "real option"

text \<open>
  \<open>sorted(xs, key=k, reverse=True)\<close>: descending by key, elements of equal key in
  their original order.
\<close>

definition sorted_desc :: "('a \<Rightarrow> real) \<Rightarrow> 'a list \<Rightarrow> 'a list" where
  "sorted_desc k xs = sort_key (\<lambda>x. - k x) xs"

text \<open>
  The \<open>else\<close> branch of \<open>get_portfolio_summary\<close>, taken when the cache has no
  Top_Performers entries: (topPerformer, worstPerformer, highestValue, lowestValue).
\<close>

definition fallback_performers ::
  "holding list \<Rightarrow> error + (top_performer \<times> top_performer \<times> top_performer \<times> top_performer)" where
  "fallback_performers holdings_data =
     (let sorted_by_performance = sorted_desc gainLossPercent holdings_data;
          sorted_by_value = sorted_desc hvalue holdings_data
      in
        bind_err (py_index sorted_by_performance 0) (\<lambda>top_holding.
        bind_err (py_index sorted_by_performance (- 1)) (\<lambda>worst_holding.
        bind_err (py_index sorted_by_value 0) (\<lambda>highest_value_holding.
        bind_err (py_index sorted_by_value (- 1)) (\<lambda>lowest_value_holding.
          Inr (\<lparr>tp_symbol = symbol top_holding, tp_name = name top_holding,
                 gainPercent = Some (gainLossPercent top_holding), tp_value = None\<rparr>,
               \<lparr>tp_symbol = symbol worst_holding, tp_name = name worst_holding,
                 gainPercent = Some (gainLossPercent worst_holding), tp_value = None\<rparr>,
               \<lparr>tp_symbol = symbol highest_value_holding, tp_name = name highest_value_holding,
                 gainPercent = None, tp_value = Some (hvalue highest_value_holding)\<rparr>,
               \<lparr>tp_symbol = symbol lowest_value_holding, tp_name = name lowest_value_holding,
                 gainPercent = None, tp_value = Some (hvalue lowest_value_holding)\<rparr>))))))"

subsection \<open>The specification's formulas\<close>

text \<open>
  Two formulas written after the specification's words rather than after the code, to be
  compared with the code: the period return, and the share of value held in
  high-risk sectors ("0 when total value is 0").
\<close>

definition claimed_return :: "real \<Rightarrow> real \<Rightarrow> real" where
  "claimed_return current past =
     (if past \<le> 0 then 0 else py_round ((current - past) / past * 100) 1)"

definition claimed_high_risk_ratio :: "holding list \<Rightarrow> real" where
  "claimed_high_risk_ratio hs =
     (if total_value hs = 0 then 0
      else sum_list (map hvalue (filter (\<lambda>h. sector h \<in> {''Technology'', ''Small Cap Stocks''}) hs))
           / total_value hs)"

text \<open>A Holdings row has a non-empty symbol (line 175-176).\<close>

definition has_symbol :: "row \<Rightarrow> bool" where
  "has_symbol r = truthy (py_or (get r ''Symbol'') (get r ''symbol''))"

text \<open>
  The rows of the Holdings sheet that are to be counted, described by their cells and
  not by the row loop: the symbol is not empty, each of the five cells read with
  \<open>float\<close> is blank or zero, a number, or a text that \<open>float\<close> reads as a finite
  number, and the gain/loss percent cell, on which \<open>abs\<close> is called, is blank or zero
  or a number.
\<close>

definition numeric_cells :: "row \<Rightarrow> cell list" where
  "numeric_cells r =
     [py_or (get r ''Quantity'') (get_default r ''quantity'' (CInt 0)),
      py_or (get r ''avg_price'') (get_default r ''avgPrice'' (CInt 0)),
      py_or (get r ''current_price'') (get_default r ''currentPrice'' (CInt 0)),
      py_or (get r ''value'') (get_default r ''Value'' (CInt 0)),
      py_or (get r ''gain_loss'') (get_default r ''gainLoss'' (CInt 0))]"

definition percent_cell :: "row \<Rightarrow> cell" where
  "percent_cell r =
     py_or (get r ''gain_loss_percent'') (get_default r ''gainLossPercent'' (CInt 0))"

definition is_number :: "cell \<Rightarrow> bool" where
  "is_number c = (case c of CBool b \<Rightarrow> True | CInt i \<Rightarrow> True | CFloat f \<Rightarrow> True | _ \<Rightarrow> False)"

definition is_finite_text :: "cell \<Rightarrow> bool" where
  "is_finite_text c =
     (case c of
        CStr s \<Rightarrow> (case float_of_str s of Some (Finite v) \<Rightarrow> True | _ \<Rightarrow> False)
      | _ \<Rightarrow> False)"

definition converts :: "cell \<Rightarrow> bool" where
  "converts c = (\<not> truthy c \<or> is_number c \<or> is_finite_text c)"

definition row_kept :: "row \<Rightarrow> bool" where
  "row_kept r =
     (has_symbol r \<and> list_all converts (numeric_cells r)
      \<and> (\<not> truthy (percent_cell r) \<or> is_number (percent_cell r)))"

subsection \<open>Sample inputs\<close>

definition sample_float_repr :: "real \<Rightarrow> string" where
  "sample_float_repr x = ''0.0''"

text \<open>
  A Holdings sheet whose Quantity and Value columns hold text: the first row converts,
  the second has a quantity that is not a number.
\<close>

definition sample_holdings_frame :: frame where
  "sample_holdings_frame =
     \<lparr>columns = [''Symbol'', ''Quantity'', value_header],
      rows = [[CStr ''TCS'', CStr ''10'', CStr ''1500.5''],
              [CStr ''INFY'', CStr ''n/a'', CStr ''900'']]\<rparr>"

definition sample_source :: source where
  "sample_source =
     \<lparr>file_exists = True,
      holdings_polars = Inr sample_holdings_frame,
      holdings_pandas = Inl SheetReadError,
      performance_sheet =
        Inr \<lparr>columns = [''Date'', portfolio_value_header, ''Nifty 50'',
                         gold_header],
             rows = []\<rparr>,
      sector_sheet =
        Inr \<lparr>columns = [''Sector'', value_header, ''Percentage''],
             rows = [[CStr ''Technology'', CFloat 1500, CFloat 45]]\<rparr>,
      market_cap_sheet =
        Inr \<lparr>columns = [''Market Cap'', value_header, ''Percentage''],
             rows = [[CStr ''Large'', CStr (rupee @ ''1,234.50''), CFloat (1 / 2)]]\<rparr>,
      summary_sheet = Inr \<lparr>columns = [''Metric'', ''Value''], rows = []\<rparr>,
      top_performers_sheet =
        Inr \<lparr>columns = [''Metric'', ''Symbol'', ''Company Name'', ''Performance''], rows = []\<rparr>\<rparr>"

text \<open>The same file with a Historical_Performance sheet that cannot be read.\<close>

definition failing_source :: source where
  "failing_source = sample_source\<lparr>performance_sheet := Inl SheetReadError\<rparr>"

text \<open>The same file with a Sector_Allocation sheet that cannot be read.\<close>

definition failing_sector_source :: source where
  "failing_sector_source = sample_source\<lparr>sector_sheet := Inl SheetReadError\<rparr>"

definition tcs :: holding where
  "tcs = \<lparr>symbol = ''TCS'', name = [], quantity = 10, avgPrice = 0, currentPrice = 0,
           sector = [], marketCap = [], hvalue = 15005 / 10, gainLoss = 0, gainLossPercent = 0\<rparr>"

definition sample_cache :: data_cache where
  "sample_cache =
     \<lparr>holdings = Some [tcs], historical_performance = Some [],
      sector_allocation = Some [(CStr ''Technology'', \<lparr>avalue = 1500, percentage = 4500\<rparr>)],
      market_cap = Some [(CStr ''Large'', \<lparr>avalue = 12345 / 10, percentage = 50\<rparr>)],
      top_performers = Some [], summary = Some []\<rparr>"


definition blank_row :: row where
  "blank_row = map_of [(''Symbol'', CStr ''TCS''), (''Quantity'', CNone), (''value'', CInt 0)]"

text \<open>Holdings with a chosen sector and value.\<close>

definition holding_in :: "string \<Rightarrow> real \<Rightarrow> holding" where
  "holding_in s v =
     \<lparr>symbol = ''SYM'', name = ''Company'', quantity = 1, avgPrice = 0, currentPrice = 0,
      sector = s, marketCap = ''Large'', hvalue = v, gainLoss = 0, gainLossPercent = 0\<rparr>"

definition cache_of :: "holding list \<Rightarrow> data_cache" where
  "cache_of hs = empty_cache\<lparr>holdings := Some hs\<rparr>"

definition eight_in_five :: "holding list" where
  "eight_in_five =
     replicate 4 (holding_in ''Banking'' 1) @
     [holding_in ''Technology'' 1, holding_in ''Healthcare'' 1, holding_in ''FMCG'' 1,
      holding_in ''Energy'' 1]"

definition twenty_in_three :: "holding list" where
  "twenty_in_three =
     replicate 18 (holding_in ''Banking'' 1) @
     [holding_in ''Technology'' 1, holding_in ''Healthcare'' 1]"

text \<open>A portfolio whose total value is negative, and one with 30 percent in Technology.\<close>

definition negative_total :: "holding list" where
  "negative_total = [holding_in ''Technology'' (- 10)]"

definition thirty_percent :: "holding list" where
  "thirty_percent = [holding_in ''Technology'' 30, holding_in ''Banking'' 70]"

text \<open>A single holding of value 0.\<close>

definition zero_total_cache :: data_cache where
  "zero_total_cache = cache_of [holding_in ''Technology'' 0]"

definition sample_timeline :: "performance_point list" where
  "sample_timeline =
     [\<lparr>date = ''2024-01-01'', portfolio = 100, nifty50 = 0, gold = 50\<rparr>,
      \<lparr>date = ''2024-02-01'', portfolio = 110, nifty50 = 10, gold = 50\<rparr>,
      \<lparr>date = ''2024-03-01'', portfolio = 120, nifty50 = 20, gold = 50\<rparr>,
      \<lparr>date = ''2024-04-01'', portfolio = 130, nifty50 = 30, gold = 50\<rparr>,
      \<lparr>date = ''2024-05-01'', portfolio = 150, nifty50 = 40, gold = 50\<rparr>]"

definition timeline_cache :: data_cache where
  "timeline_cache = empty_cache\<lparr>historical_performance := Some sample_timeline\<rparr>"

text \<open>A timeline of one point.\<close>

definition one_point_cache :: data_cache where
  "one_point_cache =
     empty_cache\<lparr>historical_performance :=
       Some [\<lparr>date = ''2024-01-01'', portfolio = 100, nifty50 = 0, gold = 50\<rparr>]\<rparr>"

section \<open>Properties\<close>

subsection \<open>Evaluation rules\<close>

lemma utf8_chars_from_numeral:
  "utf8_chars_from (numeral n) cur (b # bs) = utf8_chars_from (pred_numeral n) (cur @ [b]) bs"
  by (simp add: numeral_eq_Suc)

lemmas string_eval = strip_def utf8_chars_def utf8_width_def utf8_chars_from_numeral
  code_point_def is_space_def lower_def lower_char_def rupee_def str_remove_def clean_number_def

lemmas float_eval = float_of_str_def to_ascii_def is_c_space_def c_strip_def parse_unsigned_def
  parse_decimal_def parse_mantissa_def parse_exponent_def is_exp_mark_def is_digit_def
  nat_of_digits_def digit_val_def negated_def

lemmas cell_eval = truthy_def py_or_def py_float_def py_abs_def py_int_def py_int_float_def
  py_str_def get_def get_default_def item_def bind_err_def handled_def

lemmas holding_eval = holding_of_row_def int_or_zero_def float_or_zero_def
  normalize_gain_loss_percent_def

lemma below_overflow: "v \<le> 10 ^ 12 \<Longrightarrow> \<not> overflows v"
proof -
  assume a: "v \<le> 10 ^ 12"
  have "(10::real) ^ 12 < 2 ^ 970" by simp
  moreover have "(2::real) ^ 970 \<le> 2 ^ 1024 - 2 ^ 970"
  proof -
    have "(2::real) ^ 1024 = 2 ^ 970 * 2 ^ 54" by (simp add: power_add[symmetric])
    then show ?thesis by simp
  qed
  ultimately show ?thesis using a by (simp add: overflows_def float_overflow_def)
qed

subsection \<open>Normalisation of \<open>gainLossPercent\<close>\<close>







subsection \<open>Diversification score\<close>

lemma card_sectors_eight: "card (sector ` set eight_in_five) = 5"
  by (simp add: eight_in_five_def holding_in_def card_insert_if)

lemma card_sectors_twenty: "card (sector ` set twenty_in_three) = 3"
  by (simp add: twenty_in_three_def holding_in_def card_insert_if)

text \<open>
  C6. Without holdings the diversification score is 5.0. Otherwise it is
  \<open>min(2 * distinct sectors, 10)\<close> minus the penalty \<open>max(0, (holdings - 10) * 0.1)\<close>,
  which applies only above 10 holdings, clamped to the range from 1.0 to 10.0. One
  holding scores 2.0, 8 holdings over 5 sectors score 10.0, 20 holdings over 3 sectors
  score 5.0.
\<close>

theorem diversification_score_formula:
  "(\<not> present (holdings cache) \<longrightarrow> calculate_diversification_score cache = 5)
   \<and> (holdings cache = Some hs \<and> hs \<noteq> [] \<longrightarrow>
        calculate_diversification_score cache =
          min 10 (max 1 (real (min (2 * card (sector ` set hs)) 10)
                         - (if 10 < length hs then max 0 ((real (length hs) - 10) * (1 / 10))
                            else 0))))
   \<and> (holdings cache = Some [h] \<longrightarrow> calculate_diversification_score cache = 2)
   \<and> (holdings cache = Some hs \<and> length hs = 8 \<and> card (sector ` set hs) = 5 \<longrightarrow>
        calculate_diversification_score cache = 10)
   \<and> (holdings cache = Some hs \<and> length hs = 20 \<and> card (sector ` set hs) = 3 \<longrightarrow>
        calculate_diversification_score cache = 5)"
  by (auto simp add: calculate_diversification_score_def present_def Let_def mult.commute)

theorem diversification_score_formula_witness:
  "\<not> present (holdings empty_cache) \<and> calculate_diversification_score empty_cache = 5
   \<and> holdings (cache_of [tcs]) = Some [tcs] \<and> calculate_diversification_score (cache_of [tcs]) = 2
   \<and> holdings (cache_of eight_in_five) = Some eight_in_five \<and> length eight_in_five = 8
   \<and> card (sector ` set eight_in_five) = 5
   \<and> calculate_diversification_score (cache_of eight_in_five) = 10
   \<and> holdings (cache_of twenty_in_three) = Some twenty_in_three \<and> length twenty_in_three = 20
   \<and> card (sector ` set twenty_in_three) = 3
   \<and> calculate_diversification_score (cache_of twenty_in_three) = 5"
proof -
  have e: "\<not> present (holdings empty_cache)"
    by (simp add: present_def empty_cache_def)
  have one: "holdings (cache_of [tcs]) = Some [tcs]"
    by (simp add: cache_of_def)
  have eight: "holdings (cache_of eight_in_five) = Some eight_in_five \<and> length eight_in_five = 8
      \<and> card (sector ` set eight_in_five) = 5"
    by (simp add: cache_of_def card_sectors_eight) (simp add: eight_in_five_def)
  have twenty: "holdings (cache_of twenty_in_three) = Some twenty_in_three
      \<and> length twenty_in_three = 20 \<and> card (sector ` set twenty_in_three) = 3"
    by (simp add: cache_of_def card_sectors_twenty) (simp add: twenty_in_three_def)
  show ?thesis
    using e one eight twenty
      diversification_score_formula[of empty_cache "[]" tcs]
      diversification_score_formula[of "cache_of [tcs]" "[tcs]" tcs]
      diversification_score_formula[of "cache_of eight_in_five" eight_in_five tcs]
      diversification_score_formula[of "cache_of twenty_in_three" twenty_in_three tcs]
    by simp
qed

subsection \<open>Risk level\<close>

text \<open>
  C7, as stated, at a portfolio of one Technology holding of value -10 and a
  diversification score of 8: the total value is negative, so the code takes the ratio
  to be 0 and answers Conservative, while the ratio of the claim (zero only for a zero
  total) is 1, which is not below 0.3.
\<close>

theorem risk_level_negative_total_counterexample:
  "determine_risk_level (cache_of negative_total) 8 = ''Conservative''
   \<and> claimed_high_risk_ratio negative_total = 1
   \<and> \<not> (8 \<le> (8 :: real) \<and> claimed_high_risk_ratio negative_total < 3 / 10)"
  by (simp add: determine_risk_level_def cache_of_def negative_total_def empty_cache_def
      present_def holding_in_def total_value_def high_risk_sectors_def
      claimed_high_risk_ratio_def)

text \<open>
  C7, amended. Without holdings the risk level is Moderate. Otherwise, with the ratio of
  the value held in Technology and Small Cap Stocks to the total value, taken as 0
  whenever the total value is not positive, the level is Conservative when the score is
  at least 8 and the ratio below 0.3, else Moderate when the score is at least 6 and the
  ratio below 0.5, else Aggressive. The comparisons on the ratio are strict: a ratio of
  exactly 0.3 with score 8 is not Conservative.
\<close>

theorem risk_level_thresholds:
  "(\<not> present (holdings cache) \<longrightarrow> determine_risk_level cache d = ''Moderate'')
   \<and> (holdings cache = Some hs \<and> hs \<noteq> [] \<longrightarrow>
        determine_risk_level cache d =
          (let ratio =
                 (if total_value hs \<le> 0 then 0
                  else sum_list (map hvalue
                         (filter (\<lambda>h. sector h \<in> {''Technology'', ''Small Cap Stocks''}) hs))
                       / total_value hs)
           in if 8 \<le> d \<and> ratio < 3 / 10 then ''Conservative''
              else if 6 \<le> d \<and> ratio < 5 / 10 then ''Moderate''
              else ''Aggressive''))
   \<and> (holdings cache = Some hs \<and> hs \<noteq> [] \<and> 0 < total_value hs
        \<and> sum_list (map hvalue
              (filter (\<lambda>h. sector h \<in> {''Technology'', ''Small Cap Stocks''}) hs))
            = 3 / 10 * total_value hs \<longrightarrow>
        determine_risk_level cache 8 = ''Moderate'')"
  by (auto simp add: determine_risk_level_def present_def Let_def high_risk_sectors_def)

theorem risk_level_thresholds_witness:
  "\<not> present (holdings empty_cache) \<and> determine_risk_level empty_cache 8 = ''Moderate''
   \<and> holdings (cache_of thirty_percent) = Some thirty_percent \<and> thirty_percent \<noteq> []
   \<and> 0 < total_value thirty_percent
   \<and> sum_list (map hvalue
         (filter (\<lambda>h. sector h \<in> {''Technology'', ''Small Cap Stocks''}) thirty_percent))
       = 3 / 10 * total_value thirty_percent
   \<and> determine_risk_level (cache_of thirty_percent) 8 = ''Moderate''
   \<and> holdings (cache_of negative_total) = Some negative_total \<and> negative_total \<noteq> []
   \<and> determine_risk_level (cache_of negative_total) 8 = ''Conservative''"
proof -
  have e: "\<not> present (holdings empty_cache)"
    by (simp add: present_def empty_cache_def)
  have t: "holdings (cache_of thirty_percent) = Some thirty_percent \<and> thirty_percent \<noteq> []
      \<and> 0 < total_value thirty_percent
      \<and> sum_list (map hvalue
            (filter (\<lambda>h. sector h \<in> {''Technology'', ''Small Cap Stocks''}) thirty_percent))
          = 3 / 10 * total_value thirty_percent"
    by (simp add: cache_of_def thirty_percent_def holding_in_def total_value_def)
  have n: "holdings (cache_of negative_total) = Some negative_total \<and> negative_total \<noteq> []
      \<and> total_value negative_total \<le> 0"
    by (simp add: cache_of_def negative_total_def holding_in_def total_value_def)
  show ?thesis
    using e t n
      risk_level_thresholds[of empty_cache 8 "[]"]
      risk_level_thresholds[of "cache_of thirty_percent" 8 thirty_percent]
      risk_level_thresholds[of "cache_of negative_total" 8 negative_total]
    by simp
qed

subsection \<open>Performance returns\<close>

lemma calculate_return_claimed: "calculate_return c p = claimed_return c p"
  by (simp add: calculate_return_def claimed_return_def)

lemma returns_of_timeline:
  assumes "historical_performance cache = Some pts" and "2 \<le> length pts"
  shows "calculate_performance_returns cache =
    [(''portfolio'', returns_for portfolio (last pts) (pts ! (length pts - 2))
         (pts ! nat (max 0 (int (length pts) - 4))) (hd pts)),
     (''nifty50'', returns_for nifty50 (last pts) (pts ! (length pts - 2))
         (pts ! nat (max 0 (int (length pts) - 4))) (hd pts)),
     (''gold'', returns_for gold (last pts) (pts ! (length pts - 2))
         (pts ! nat (max 0 (int (length pts) - 4))) (hd pts))]"
proof -
  from assms(2) have ne: "pts \<noteq> []" by auto
  have final: "pts ! (length pts - Suc 0) = last pts"
    using ne by (simp add: last_conv_nth)
  have first: "pts ! 0 = hd pts"
    using ne by (simp add: hd_conv_nth)
  have third: "(if 4 \<le> length pts then pts ! nat (max 0 (int (length pts) - 4)) else pts ! 0)
               = pts ! nat (max 0 (int (length pts) - 4))"
    by auto
  show ?thesis
    using assms ne unfolding calculate_performance_returns_def
    by (simp add: Let_def final first third
             del: max.absorb1 max.absorb2 max.absorb3 max.absorb4)
qed

lemma round_sample_values:
  "py_round (200 / 13) (Suc 0) = 154 / 10"
  "py_round (400 / 11) (Suc 0) = 364 / 10"
  "py_round 50 (Suc 0) = 50"
  "py_round (100 / 3) (Suc 0) = 333 / 10"
  "py_round 300 (Suc 0) = 300"
  "py_round 0 (Suc 0) = 0"
  by (simp_all add: py_round_def round_half_even_def Let_def)

text \<open>
  C5. With no timeline or fewer than 2 points the returns map is empty. Otherwise it has
  the three series portfolio, nifty50 and gold, and for each of them \<open>month1\<close> compares
  the last point with the second-to-last, \<open>months3\<close> with the point at index
  \<open>max(0, length - 4)\<close> and \<open>year1\<close> with the first point, each return being
  \<open>(current - past) / past * 100\<close> rounded to 1 decimal, and 0 when the past value is
  not positive.
\<close>

theorem performance_returns_formula:
  "(historical_performance cache = None \<longrightarrow> calculate_performance_returns cache = [])
   \<and> (historical_performance cache = Some pts \<and> length pts < 2 \<longrightarrow>
        calculate_performance_returns cache = [])
   \<and> (historical_performance cache = Some pts \<and> 2 \<le> length pts \<longrightarrow>
        map fst (calculate_performance_returns cache) = [''portfolio'', ''nifty50'', ''gold'']
        \<and> (\<forall>(key, series) \<in> {(''portfolio'', portfolio), (''nifty50'', nifty50), (''gold'', gold)}.
             map_of (calculate_performance_returns cache) key =
               Some \<lparr>month1 = claimed_return (series (last pts)) (series (pts ! (length pts - 2))),
                     months3 = claimed_return (series (last pts))
                                 (series (pts ! nat (max 0 (int (length pts) - 4)))),
                     year1 = claimed_return (series (last pts)) (series (hd pts))\<rparr>))"
proof (intro conjI impI)
  show "calculate_performance_returns cache = []" if "historical_performance cache = None"
    using that by (simp add: calculate_performance_returns_def)
  show "calculate_performance_returns cache = []"
    if "historical_performance cache = Some pts \<and> length pts < 2"
    using that by (auto simp add: calculate_performance_returns_def)
next
  assume "historical_performance cache = Some pts \<and> 2 \<le> length pts"
  then have eq: "calculate_performance_returns cache =
    [(''portfolio'', returns_for portfolio (last pts) (pts ! (length pts - 2))
         (pts ! nat (max 0 (int (length pts) - 4))) (hd pts)),
     (''nifty50'', returns_for nifty50 (last pts) (pts ! (length pts - 2))
         (pts ! nat (max 0 (int (length pts) - 4))) (hd pts)),
     (''gold'', returns_for gold (last pts) (pts ! (length pts - 2))
         (pts ! nat (max 0 (int (length pts) - 4))) (hd pts))]"
    using returns_of_timeline by blast
  show "map fst (calculate_performance_returns cache) = [''portfolio'', ''nifty50'', ''gold'']"
    by (simp add: eq)
  show "\<forall>(key, series) \<in> {(''portfolio'', portfolio), (''nifty50'', nifty50), (''gold'', gold)}.
             map_of (calculate_performance_returns cache) key =
               Some \<lparr>month1 = claimed_return (series (last pts)) (series (pts ! (length pts - 2))),
                     months3 = claimed_return (series (last pts))
                                 (series (pts ! nat (max 0 (int (length pts) - 4)))),
                     year1 = claimed_return (series (last pts)) (series (hd pts))\<rparr>"
    unfolding eq by (simp add: returns_for_def calculate_return_claimed)
qed

theorem performance_returns_formula_witness:
  "historical_performance empty_cache = None \<and> calculate_performance_returns empty_cache = []
   \<and> historical_performance one_point_cache =
        Some [\<lparr>date = ''2024-01-01'', portfolio = 100, nifty50 = 0, gold = 50\<rparr>]
   \<and> calculate_performance_returns one_point_cache = []
   \<and> historical_performance timeline_cache = Some sample_timeline \<and> 2 \<le> length sample_timeline
   \<and> map_of (calculate_performance_returns timeline_cache) ''portfolio'' =
        Some \<lparr>month1 = 154 / 10, months3 = 364 / 10, year1 = 50\<rparr>
   \<and> map_of (calculate_performance_returns timeline_cache) ''nifty50'' =
        Some \<lparr>month1 = 333 / 10, months3 = 300, year1 = 0\<rparr>
   \<and> map_of (calculate_performance_returns timeline_cache) ''gold'' =
        Some \<lparr>month1 = 0, months3 = 0, year1 = 0\<rparr>"
proof -
  have e: "historical_performance empty_cache = None"
    by (simp add: empty_cache_def)
  have t: "historical_performance timeline_cache = Some sample_timeline \<and> 2 \<le> length sample_timeline"
    by (simp add: timeline_cache_def sample_timeline_def)
  have pts: "last sample_timeline = \<lparr>date = ''2024-05-01'', portfolio = 150, nifty50 = 40, gold = 50\<rparr>"
    "sample_timeline ! (length sample_timeline - 2)
       = \<lparr>date = ''2024-04-01'', portfolio = 130, nifty50 = 30, gold = 50\<rparr>"
    "sample_timeline ! nat (max 0 (int (length sample_timeline) - 4))
       = \<lparr>date = ''2024-02-01'', portfolio = 110, nifty50 = 10, gold = 50\<rparr>"
    "hd sample_timeline = \<lparr>date = ''2024-01-01'', portfolio = 100, nifty50 = 0, gold = 50\<rparr>"
    by (simp_all add: sample_timeline_def)
  have o: "historical_performance one_point_cache =
        Some [\<lparr>date = ''2024-01-01'', portfolio = 100, nifty50 = 0, gold = 50\<rparr>]"
    by (simp add: one_point_cache_def)
  show ?thesis
    using e t o
      performance_returns_formula[of empty_cache "[]"]
      performance_returns_formula[of one_point_cache
        "[\<lparr>date = ''2024-01-01'', portfolio = 100, nifty50 = 0, gold = 50\<rparr>]"]
      performance_returns_formula[of timeline_cache sample_timeline]
    by (simp add: pts claimed_return_def round_sample_values)
qed

subsection \<open>The value of a Market_Cap row\<close>






lemma float_of_str_not_a_number: "float_of_str ''n/a'' = None"
  by (simp add: float_eval string_eval)









subsection \<open>Percentages of the allocation sheets\<close>

lemma set_update_subset: "set (AList.update k v d) \<subseteq> insert (k, v) (set d)"
  by (induction d) auto

lemma build_dict_origin:
  "build_dict f rs d0 = Inr d \<Longrightarrow> (k, a) \<in> set d
   \<Longrightarrow> (k, a) \<in> set d0 \<or> (\<exists>r \<in> set rs. f r = Inr (Some (k, a)))"
proof (induction rs arbitrary: d0)
  case Nil
  then show ?case by simp
next
  case (Cons r rs)
  from Cons.prems(1) obtain e where e: "f r = Inr e"
    and rest: "build_dict f rs (case e of None \<Rightarrow> d0 | Some (k, v) \<Rightarrow> AList.update k v d0) = Inr d"
    by (auto simp add: bind_err_def split: sum.splits)
  from Cons.IH[OF rest Cons.prems(2)]
  show ?case
  proof
    assume m: "(k, a) \<in> set (case e of None \<Rightarrow> d0 | Some (k, v) \<Rightarrow> AList.update k v d0)"
    show ?thesis
    proof (cases e)
      case None
      with m show ?thesis by simp
    next
      case (Some kv)
      obtain k' v' where kv: "kv = (k', v')" by (cases kv)
      with m Some have "(k, a) \<in> set (AList.update k' v' d0)" by simp
      with set_update_subset have "(k, a) = (k', v') \<or> (k, a) \<in> set d0" by fastforce
      with e Some kv show ?thesis by auto
    qed
  next
    assume "\<exists>r\<in>set rs. f r = Inr (Some (k, a))"
    then show ?thesis by auto
  qed
qed

lemma sector_of_row_percentage:
  "sector_of_row r = Inr (Some (k, a))
   \<Longrightarrow> \<exists>p. r ''Sector'' = Some k \<and> r ''Percentage'' = Some p
          \<and> percentage_of_cell p = Inr (percentage a)"
  by (auto simp add: sector_of_row_def item_def bind_err_def
           split: option.splits sum.splits if_splits)

lemma market_cap_of_row_percentage:
  "market_cap_of_row float_repr r = Inr (Some (k, a))
   \<Longrightarrow> \<exists>p. r ''market_cap'' = Some k \<and> r ''Percentage'' = Some p
          \<and> percentage_of_cell p = Inr (percentage a)"
  by (auto simp add: market_cap_of_row_def item_def bind_err_def
           split: option.splits sum.splits if_splits)

lemma load_sector_allocation_percentage:
  assumes "load_sector_allocation src = Inr d" and "(k, a) \<in> set d"
  shows "\<exists>df. read_sector_allocation src = Inr df
           \<and> (\<exists>r \<in> set (iter_rows df). \<exists>p. r ''Sector'' = Some k \<and> r ''Percentage'' = Some p
                  \<and> percentage_of_cell p = Inr (percentage a))"
proof -
  from assms(1) obtain df where df: "read_sector_allocation src = Inr df"
    and b: "build_dict sector_of_row (iter_rows df) [] = Inr d"
    by (auto simp add: load_sector_allocation_def bind_err_def split: sum.splits)
  from build_dict_origin[OF b assms(2)] obtain r
    where r: "r \<in> set (iter_rows df)" "sector_of_row r = Inr (Some (k, a))"
    by auto
  from sector_of_row_percentage[OF r(2)] r(1) df show ?thesis by blast
qed

lemma load_market_cap_percentage:
  assumes "load_market_cap float_repr src = Inr d" and "(k, a) \<in> set d"
  shows "\<exists>df. read_market_cap src = Inr df
           \<and> (\<exists>r \<in> set (iter_rows df). \<exists>p. r ''market_cap'' = Some k \<and> r ''Percentage'' = Some p
                  \<and> percentage_of_cell p = Inr (percentage a))"
proof -
  from assms(1) obtain df where df: "read_market_cap src = Inr df"
    and b: "build_dict (market_cap_of_row float_repr) (iter_rows df) [] = Inr d"
    by (auto simp add: load_market_cap_def bind_err_def split: sum.splits)
  from build_dict_origin[OF b assms(2)] obtain r
    where r: "r \<in> set (iter_rows df)" "market_cap_of_row float_repr r = Inr (Some (k, a))"
    by auto
  from market_cap_of_row_percentage[OF r(2)] r(1) df show ?thesis by blast
qed

lemma sample_read_sector:
  "read_sector_allocation sample_source =
     Inr \<lparr>columns = [''Sector'', ''value'', ''Percentage''],
          rows = [[CStr ''Technology'', CFloat 1500, CFloat 45]]\<rparr>"
  by (simp add: read_sector_allocation_def sample_source_def rename_def bind_err_def
      value_header_def rupee_def)

lemma sample_load_sector:
  "load_sector_allocation sample_source =
     Inr [(CStr ''Technology'', \<lparr>avalue = 1500, percentage = 4500\<rparr>)]"
  by (simp add: load_sector_allocation_def sample_read_sector iter_rows_def
      sector_of_row_def float_or_zero_def percentage_of_cell_def cell_eval)

lemma sample_read_market_cap:
  "read_market_cap sample_source =
     Inr \<lparr>columns = [''market_cap'', ''value'', ''Percentage''],
          rows = [[CStr ''Large'', CStr (rupee @ ''1,234.50''), CFloat (1 / 2)]]\<rparr>"
  by (simp add: read_market_cap_def sample_source_def rename_def bind_err_def
      value_header_def rupee_def)

lemma sample_load_market_cap:
  "load_market_cap float_repr sample_source =
     Inr [(CStr ''Large'', \<lparr>avalue = 12345 / 10, percentage = 50\<rparr>)]"
  by (simp add: load_market_cap_def sample_read_market_cap iter_rows_def
      market_cap_of_row_def parse_market_cap_value_def market_cap_value_try_def
      percentage_of_cell_def cell_eval float_eval string_eval below_overflow)

text \<open>
  C9. The percentage stored for a Sector_Allocation or Market_Cap row is the row's
  Percentage cell times 100, whatever its magnitude, and 0.0 for a blank (falsy) cell:
  a cell of 45 is stored as 4500. Every entry of the two loaded tables comes from a row
  of its sheet with that key whose Percentage cell gives the stored percentage in this
  way.
\<close>

theorem allocation_percentage_times_100:
  "percentage_of_cell (CFloat x) = Inr (x * 100)
   \<and> percentage_of_cell (CInt i) = Inr (real_of_int i * 100)
   \<and> percentage_of_cell CNone = Inr 0
   \<and> percentage_of_cell (CFloat 45) = Inr 4500
   \<and> (load_sector_allocation src = Inr d \<and> (k, a) \<in> set d \<longrightarrow>
        (\<exists>df. read_sector_allocation src = Inr df
           \<and> (\<exists>r \<in> set (iter_rows df). \<exists>p. r ''Sector'' = Some k \<and> r ''Percentage'' = Some p
                  \<and> percentage_of_cell p = Inr (percentage a))))
   \<and> (load_market_cap float_repr src = Inr d' \<and> (k', a') \<in> set d' \<longrightarrow>
        (\<exists>df. read_market_cap src = Inr df
           \<and> (\<exists>r \<in> set (iter_rows df). \<exists>p. r ''market_cap'' = Some k' \<and> r ''Percentage'' = Some p
                  \<and> percentage_of_cell p = Inr (percentage a'))))"
  using load_sector_allocation_percentage[of src d k a]
    load_market_cap_percentage[of float_repr src d' k' a']
  by (simp add: percentage_of_cell_def truthy_def py_float_def bind_err_def)

theorem allocation_percentage_times_100_witness:
  "load_sector_allocation sample_source =
     Inr [(CStr ''Technology'', \<lparr>avalue = 1500, percentage = 4500\<rparr>)]
   \<and> (CStr ''Technology'', \<lparr>avalue = 1500, percentage = 4500\<rparr>)
       \<in> set [(CStr ''Technology'', \<lparr>avalue = 1500, percentage = 4500\<rparr>)]
   \<and> load_market_cap sample_float_repr sample_source =
     Inr [(CStr ''Large'', \<lparr>avalue = 12345 / 10, percentage = 50\<rparr>)]
   \<and> (CStr ''Large'', \<lparr>avalue = 12345 / 10, percentage = 50\<rparr>)
       \<in> set [(CStr ''Large'', \<lparr>avalue = 12345 / 10, percentage = 50\<rparr>)]
   \<and> (\<exists>r \<in> set (iter_rows \<lparr>columns = [''Sector'', ''value'', ''Percentage''],
                              rows = [[CStr ''Technology'', CFloat 1500, CFloat 45]]\<rparr>).
         \<exists>p. r ''Sector'' = Some (CStr ''Technology'') \<and> r ''Percentage'' = Some p
              \<and> percentage_of_cell p = Inr 4500)
   \<and> (\<exists>r \<in> set (iter_rows \<lparr>columns = [''market_cap'', ''value'', ''Percentage''],
                              rows = [[CStr ''Large'', CStr (rupee @ ''1,234.50''), CFloat (1 / 2)]]\<rparr>).
         \<exists>p. r ''market_cap'' = Some (CStr ''Large'') \<and> r ''Percentage'' = Some p
              \<and> percentage_of_cell p = Inr 50)"
  using allocation_percentage_times_100[of 45 0 sample_source
      "[(CStr ''Technology'', \<lparr>avalue = 1500, percentage = 4500\<rparr>)]"
      "CStr ''Technology''" "\<lparr>avalue = 1500, percentage = 4500\<rparr>"
      sample_float_repr
      "[(CStr ''Large'', \<lparr>avalue = 12345 / 10, percentage = 50\<rparr>)]"
      "CStr ''Large''" "\<lparr>avalue = 12345 / 10, percentage = 50\<rparr>"]
    sample_load_sector sample_load_market_cap[of sample_float_repr]
  by (simp add: sample_read_sector sample_read_market_cap)

subsection \<open>The summary's performers derived from the holdings\<close>

lemma py_index_first: "xs \<noteq> [] \<Longrightarrow> py_index xs 0 = Inr (hd xs)"
  by (simp add: py_index_def hd_conv_nth)

lemma py_index_last: "xs \<noteq> [] \<Longrightarrow> py_index xs (- 1) = Inr (last xs)"
proof -
  assume ne: "xs \<noteq> []"
  then have len: "Suc 0 \<le> length xs"
    by (cases xs) simp_all
  then have "nat (int (length xs) - 1) = length xs - 1" by simp
  with ne len show ?thesis
    by (simp add: py_index_def last_conv_nth)
qed

lemma sorted_desc_nonempty: "xs \<noteq> [] \<Longrightarrow> sorted_desc k xs \<noteq> []"
proof
  assume "xs \<noteq> []" and "sorted_desc k xs = []"
  then have "length (sort_key (\<lambda>x. - k x) xs) = 0" by (simp add: sorted_desc_def)
  then have "length xs = 0" by (simp del: length_0_conv)
  with \<open>xs \<noteq> []\<close> show False by simp
qed

lemma fallback_performers_returns:
  assumes "hs \<noteq> []"
  shows "\<exists>res. fallback_performers hs = Inr res"
  using sorted_desc_nonempty[OF assms, of gainLossPercent] sorted_desc_nonempty[OF assms, of hvalue]
  by (simp add: fallback_performers_def Let_def py_index_first py_index_last bind_err_def)

lemma fallback_performers_single:
  "fallback_performers [h] =
     Inr (\<lparr>tp_symbol = symbol h, tp_name = name h,
            gainPercent = Some (gainLossPercent h), tp_value = None\<rparr>,
          \<lparr>tp_symbol = symbol h, tp_name = name h,
            gainPercent = Some (gainLossPercent h), tp_value = None\<rparr>,
          \<lparr>tp_symbol = symbol h, tp_name = name h,
            gainPercent = None, tp_value = Some (hvalue h)\<rparr>,
          \<lparr>tp_symbol = symbol h, tp_name = name h,
            gainPercent = None, tp_value = Some (hvalue h)\<rparr>)"
  by (simp add: fallback_performers_def sorted_desc_def py_index_def bind_err_def)

text \<open>
  C10. When the summary derives its performers from the holdings, a non-empty holdings
  list always yields a result (no index is out of range), and with exactly one holding
  \<open>topPerformer\<close> equals \<open>worstPerformer\<close> and \<open>highestValue\<close> equals
  \<open>lowestValue\<close>, all four describing that holding.
\<close>

theorem single_holding_fills_both_ends:
  "(hs \<noteq> [] \<longrightarrow> (\<exists>res. fallback_performers hs = Inr res))
   \<and> (\<exists>top_p highest. fallback_performers [h] = Inr (top_p, top_p, highest, highest)
         \<and> tp_symbol top_p = symbol h \<and> gainPercent top_p = Some (gainLossPercent h)
         \<and> tp_symbol highest = symbol h \<and> tp_value highest = Some (hvalue h))"
  using fallback_performers_returns[of hs] fallback_performers_single[of h] by simp

theorem single_holding_fills_both_ends_witness:
  "[tcs] \<noteq> []
   \<and> (\<exists>res. fallback_performers [tcs] = Inr res)
   \<and> (\<exists>top_p highest. fallback_performers [tcs] = Inr (top_p, top_p, highest, highest)
         \<and> tp_symbol top_p = ''TCS'' \<and> gainPercent top_p = Some 0
         \<and> tp_symbol highest = ''TCS'' \<and> tp_value highest = Some (15005 / 10))"
  using single_holding_fills_both_ends[of "[tcs]" tcs]
  by (simp add: tcs_def)

subsection \<open>Allocation derived from the holdings\<close>

lemma group_totals_nonempty:
  "hs \<noteq> [] \<or> totals \<noteq> [] \<Longrightarrow> group_totals key hs totals \<noteq> []"
  by (induction hs arbitrary: totals) (auto simp add: Let_def)

lemma allocation_items_zero: "kvs \<noteq> [] \<Longrightarrow> allocation_items 0 kvs = Inl ZeroDivisionError"
  by (cases kvs) (auto simp add: py_div_def bind_err_def)

lemma fallback_allocation_cases:
  "(\<not> present (sector_allocation cache) \<and> \<not> present (holdings cache) \<longrightarrow>
      calculate_allocation_by_sector cache = Inr [])
   \<and> (\<not> present (market_cap cache) \<and> \<not> present (holdings cache) \<longrightarrow>
      calculate_allocation_by_market_cap cache = Inr [])
   \<and> (\<not> present (sector_allocation cache) \<and> holdings cache = Some hs \<and> hs \<noteq> []
        \<and> total_value hs = 0 \<longrightarrow>
      calculate_allocation_by_sector cache = Inl ZeroDivisionError)
   \<and> (\<not> present (market_cap cache) \<and> holdings cache = Some hs \<and> hs \<noteq> []
        \<and> total_value hs = 0 \<longrightarrow>
      calculate_allocation_by_market_cap cache = Inl ZeroDivisionError)"
  using group_totals_nonempty[of hs "[]" sector] group_totals_nonempty[of hs "[]" marketCap]
  by (auto simp add: calculate_allocation_by_sector_def calculate_allocation_by_market_cap_def
      present_def fallback_allocation_def allocation_items_zero split: option.splits)

text \<open>
  C2, at the cache that holds no allocation tables and the single holding of value 0:
  the holdings list is not empty and the total value is 0, and both allocation
  functions raise ZeroDivisionError at the division by the total (lines 406 and 439)
  instead of returning the empty mapping.
\<close>

theorem allocation_zero_total_raises:
  "calculate_allocation_by_sector zero_total_cache = Inl ZeroDivisionError
   \<and> calculate_allocation_by_market_cap zero_total_cache = Inl ZeroDivisionError"
  by (simp add: calculate_allocation_by_sector_def calculate_allocation_by_market_cap_def
      zero_total_cache_def cache_of_def empty_cache_def present_def fallback_allocation_def
      total_value_def holding_in_def py_div_def bind_err_def)

subsection \<open>Loading the sample file\<close>

lemma sample_column_mapping:
  "column_mapping (columns sample_holdings_frame) = [(value_header, ''value'')]"
  by (simp add: column_mapping_def sample_holdings_frame_def List.map_filter_simps
      column_target_def value_header_def string_eval)

lemma sample_renamed:
  "apply_renames [(value_header, ''value'')] sample_holdings_frame =
     Inr (sample_holdings_frame\<lparr>columns := [''Symbol'', ''Quantity'', ''value'']\<rparr>)"
  by (simp add: sample_holdings_frame_def rename_def bind_err_def value_header_def rupee_def)

lemma sample_rows:
  "iter_rows (sample_holdings_frame\<lparr>columns := [''Symbol'', ''Quantity'', ''value'']\<rparr>) =
     [map_of (zip [''Symbol'', ''Quantity'', ''value''] [CStr ''TCS'', CStr ''10'', CStr ''1500.5'']),
      map_of (zip [''Symbol'', ''Quantity'', ''value''] [CStr ''INFY'', CStr ''n/a'', CStr ''900''])]"
  by (simp add: iter_rows_def sample_holdings_frame_def)

lemma sample_first_row:
  "holding_of_row float_repr
     (map_of (zip [''Symbol'', ''Quantity'', ''value''] [CStr ''TCS'', CStr ''10'', CStr ''1500.5'']))
   = Inr (Some tcs)"
  by (simp add: holding_eval cell_eval float_eval string_eval below_overflow tcs_def)

lemma sample_second_row:
  "holding_of_row float_repr
     (map_of (zip [''Symbol'', ''Quantity'', ''value''] [CStr ''INFY'', CStr ''n/a'', CStr ''900'']))
   = Inl ValueError"
  by (simp add: holding_eval cell_eval float_eval string_eval below_overflow)

lemma sample_read_holdings: "read_holdings sample_source = Inr sample_holdings_frame"
  by (simp add: read_holdings_def sample_source_def)

lemma sample_load_holdings: "load_holdings float_repr sample_source = Inr [tcs]"
  unfolding load_holdings_def sample_read_holdings
  by (simp only: bind_err_def sum.case sample_column_mapping sample_renamed sample_rows
      holdings_rows.simps sample_first_row sample_second_row option.case handled_def
      error.distinct if_False)

lemma sample_load_performance: "load_performance float_repr sample_source = Inr []"
  by (simp add: load_performance_def sample_source_def rename_def iter_rows_def bind_err_def
      portfolio_value_header_def gold_header_def rupee_def)

lemma sample_load_summary: "load_summary sample_source = Inr []"
  by (simp add: load_summary_def sample_source_def iter_rows_def bind_err_def)

lemma sample_load_top_performers: "load_top_performers sample_source = Inr []"
  by (simp add: load_top_performers_def sample_source_def iter_rows_def bind_err_def)

lemma sample_load:
  "load_excel_data float_repr sample_source empty_cache = Some (True, sample_cache)"
  by (simp add: load_excel_data_def sample_load_holdings sample_load_performance
      sample_load_sector sample_load_market_cap sample_load_summary sample_load_top_performers
      empty_cache_def sample_cache_def)
    (simp add: sample_source_def)

lemma failing_load_holdings: "load_holdings float_repr failing_source = Inr [tcs]"
proof -
  have "read_holdings failing_source = read_holdings sample_source"
    by (simp add: read_holdings_def failing_source_def sample_source_def)
  then have "load_holdings float_repr failing_source = load_holdings float_repr sample_source"
    by (simp add: load_holdings_def)
  then show ?thesis by (simp add: sample_load_holdings)
qed

lemma failing_load:
  "load_excel_data float_repr failing_source empty_cache =
     Some (False, empty_cache\<lparr>holdings := Some [tcs]\<rparr>)"
proof -
  have e: "file_exists failing_source"
    by (simp add: failing_source_def sample_source_def)
  have p: "load_performance float_repr failing_source = Inl SheetReadError"
    by (simp add: load_performance_def failing_source_def bind_err_def)
  show ?thesis
    by (simp add: load_excel_data_def failed_def e p failing_load_holdings)
qed

lemma failing_sector_stages:
  "file_exists failing_sector_source"
  "load_holdings float_repr failing_sector_source = Inr [tcs]"
  "load_performance float_repr failing_sector_source = Inr []"
  "load_sector_allocation failing_sector_source = Inl SheetReadError"
proof -
  show "file_exists failing_sector_source"
    by (simp add: failing_sector_source_def sample_source_def)
  have "read_holdings failing_sector_source = read_holdings sample_source"
    by (simp add: read_holdings_def failing_sector_source_def sample_source_def)
  then have "load_holdings float_repr failing_sector_source = load_holdings float_repr sample_source"
    by (simp add: load_holdings_def)
  then show "load_holdings float_repr failing_sector_source = Inr [tcs]"
    by (simp add: sample_load_holdings)
  show "load_performance float_repr failing_sector_source = Inr []"
    using sample_load_performance[of float_repr]
    by (simp add: load_performance_def failing_sector_source_def)
  show "load_sector_allocation failing_sector_source = Inl SheetReadError"
    by (simp add: load_sector_allocation_def read_sector_allocation_def
        failing_sector_source_def bind_err_def)
qed

lemma failing_sector_load:
  "load_excel_data float_repr failing_sector_source empty_cache =
     Some (False, empty_cache\<lparr>holdings := Some [tcs], historical_performance := Some []\<rparr>)"
  by (simp add: load_excel_data_def failed_def failing_sector_stages)

subsection \<open>A failed load\<close>

lemma load_failure_exact:
  assumes "load_excel_data float_repr src cache = Some (False, cache')"
  shows "(\<not> file_exists src \<or> isl (load_holdings float_repr src) \<longrightarrow> cache' = cache)
   \<and> (file_exists src \<and> load_holdings float_repr src = Inr h \<longrightarrow>
        (isl (load_performance float_repr src) \<longrightarrow> cache' = cache\<lparr>holdings := Some h\<rparr>)
      \<and> (load_performance float_repr src = Inr p \<longrightarrow>
           (isl (load_sector_allocation src) \<longrightarrow>
              cache' = cache\<lparr>holdings := Some h, historical_performance := Some p\<rparr>)
         \<and> (load_sector_allocation src = Inr s \<longrightarrow>
              (isl (load_market_cap float_repr src) \<longrightarrow>
                 cache' = cache\<lparr>holdings := Some h, historical_performance := Some p,
                                sector_allocation := Some s\<rparr>)
            \<and> (load_market_cap float_repr src = Inr m \<longrightarrow>
                 (isl (load_summary src) \<longrightarrow>
                    cache' = cache\<lparr>holdings := Some h, historical_performance := Some p,
                                   sector_allocation := Some s, market_cap := Some m\<rparr>)
               \<and> (load_summary src = Inr y \<longrightarrow>
                    isl (load_top_performers src)
                    \<and> cache' = cache\<lparr>holdings := Some h, historical_performance := Some p,
                                     sector_allocation := Some s, market_cap := Some m,
                                     summary := Some y\<rparr>)))))"
  using assms
  by (auto simp add: load_excel_data_def failed_def Let_def split: if_splits sum.splits)

lemma load_failure_top_performers:
  assumes "load_excel_data float_repr src cache = Some (False, cache')"
  shows "top_performers cache' = top_performers cache"
  using assms
  by (auto simp add: load_excel_data_def failed_def Let_def split: if_splits sum.splits)

text \<open>
  C1, as stated, at the sample file whose Historical_Performance sheet cannot be read,
  starting from the initial cache: the load returns False, and the cache is not as it
  was, for the holdings parsed before the failure have been installed while the five
  other tables are still \<open>None\<close>.
\<close>

theorem load_failure_leaves_holdings_counterexample:
  "load_excel_data sample_float_repr failing_source empty_cache =
     Some (False, empty_cache\<lparr>holdings := Some [tcs]\<rparr>)
   \<and> empty_cache\<lparr>holdings := Some [tcs]\<rparr> \<noteq> empty_cache
   \<and> holdings (empty_cache\<lparr>holdings := Some [tcs]\<rparr>) = Some [tcs]
   \<and> historical_performance (empty_cache\<lparr>holdings := Some [tcs]\<rparr>) = None"
  by (simp add: failing_load) (simp add: empty_cache_def)

text \<open>
  C1, amended. When \<open>load_excel_data\<close> returns False because the file is missing or
  the Holdings sheet could not be loaded, the cache is exactly as it was before the
  attempt. When it fails at a later sheet, the cache is the one before the attempt with
  exactly the tables of the sheets before the failing one replaced by the newly parsed
  ones: holdings when Historical_Performance fails; holdings and
  historical_performance when Sector_Allocation fails; these and sector_allocation when
  Market_Cap fails; these and market_cap when Summary fails; these and summary when
  Top_Performers fails. \<open>top_performers\<close> is never replaced by a failed load.
\<close>

theorem load_failure_installs_prefix:
  assumes "load_excel_data float_repr src cache = Some (False, cache')"
  shows "(\<not> file_exists src \<or> isl (load_holdings float_repr src) \<longrightarrow> cache' = cache)
   \<and> (file_exists src \<and> load_holdings float_repr src = Inr h \<longrightarrow>
        (isl (load_performance float_repr src) \<longrightarrow> cache' = cache\<lparr>holdings := Some h\<rparr>)
      \<and> (load_performance float_repr src = Inr p \<longrightarrow>
           (isl (load_sector_allocation src) \<longrightarrow>
              cache' = cache\<lparr>holdings := Some h, historical_performance := Some p\<rparr>)
         \<and> (load_sector_allocation src = Inr s \<longrightarrow>
              (isl (load_market_cap float_repr src) \<longrightarrow>
                 cache' = cache\<lparr>holdings := Some h, historical_performance := Some p,
                                sector_allocation := Some s\<rparr>)
            \<and> (load_market_cap float_repr src = Inr m \<longrightarrow>
                 (isl (load_summary src) \<longrightarrow>
                    cache' = cache\<lparr>holdings := Some h, historical_performance := Some p,
                                   sector_allocation := Some s, market_cap := Some m\<rparr>)
               \<and> (load_summary src = Inr y \<longrightarrow>
                    isl (load_top_performers src)
                    \<and> cache' = cache\<lparr>holdings := Some h, historical_performance := Some p,
                                     sector_allocation := Some s, market_cap := Some m,
                                     summary := Some y\<rparr>)))))
   \<and> top_performers cache' = top_performers cache"
  using load_failure_exact[OF assms, of h p s m y] load_failure_top_performers[OF assms]
  by blast

theorem load_failure_installs_prefix_witness:
  "load_excel_data sample_float_repr (sample_source\<lparr>file_exists := False\<rparr>) sample_cache =
     Some (False, sample_cache)
   \<and> load_excel_data sample_float_repr failing_source empty_cache =
       Some (False, empty_cache\<lparr>holdings := Some [tcs]\<rparr>)
   \<and> file_exists failing_source
   \<and> load_holdings sample_float_repr failing_source = Inr [tcs]
   \<and> isl (load_performance sample_float_repr failing_source)
   \<and> load_excel_data sample_float_repr failing_sector_source empty_cache =
       Some (False, empty_cache\<lparr>holdings := Some [tcs], historical_performance := Some []\<rparr>)
   \<and> file_exists failing_sector_source
   \<and> load_holdings sample_float_repr failing_sector_source = Inr [tcs]
   \<and> load_performance sample_float_repr failing_sector_source = Inr []
   \<and> isl (load_sector_allocation failing_sector_source)
   \<and> top_performers (empty_cache\<lparr>holdings := Some [tcs], historical_performance := Some []\<rparr>)
       = top_performers empty_cache"
proof -
  have m: "load_excel_data sample_float_repr (sample_source\<lparr>file_exists := False\<rparr>) sample_cache =
       Some (False, sample_cache)"
    by (simp add: load_excel_data_def)
  have f: "load_excel_data sample_float_repr failing_source empty_cache =
     Some (False, empty_cache\<lparr>holdings := Some [tcs]\<rparr>)"
    by (rule failing_load)
  have e: "file_exists failing_source"
    by (simp add: failing_source_def sample_source_def)
  have p: "isl (load_performance sample_float_repr failing_source)"
    by (simp add: load_performance_def failing_source_def bind_err_def)
  have g: "load_excel_data sample_float_repr failing_sector_source empty_cache =
       Some (False, empty_cache\<lparr>holdings := Some [tcs], historical_performance := Some []\<rparr>)"
    by (rule failing_sector_load)
  show ?thesis
    using m f e p g failing_load_holdings[of sample_float_repr]
      failing_sector_stages(1,4) failing_sector_stages(2,3)[of sample_float_repr]
      load_failure_installs_prefix[OF m, of "[tcs]" "[]" "[]" "[]" "[]"]
      load_failure_installs_prefix[OF f, of "[tcs]" "[]" "[]" "[]" "[]"]
      load_failure_installs_prefix[OF g, of "[tcs]" "[]" "[]" "[]" "[]"]
    by simp
qed

subsection \<open>The holdings query after a successful load\<close>

lemma float_or_zero_converts: "(\<exists>v. float_or_zero c = Inr v) \<longleftrightarrow> converts c"
  by (cases c)
     (auto simp add: float_or_zero_def converts_def is_number_def is_finite_text_def truthy_def
        py_float_def
      split: option.splits float_result.splits)

lemma int_or_zero_converts: "(\<exists>q. int_or_zero c = Inr q) \<longleftrightarrow> converts c"
  by (cases c)
     (auto simp add: int_or_zero_def converts_def is_number_def is_finite_text_def truthy_def
        py_int_float_def py_float_def bind_err_def
      split: option.splits float_result.splits)

lemma normalize_converts:
  "(\<exists>v. normalize_gain_loss_percent c = Inr v) \<longleftrightarrow> \<not> truthy c \<or> is_number c"
  by (cases c)
     (auto simp add: normalize_gain_loss_percent_def is_number_def truthy_def py_abs_def
        py_float_def bind_err_def)

lemma bind_err_Inr:
  "(\<exists>y. bind_err m f = Inr y) \<longleftrightarrow> (\<exists>x. m = Inr x \<and> (\<exists>y. f x = Inr y))"
  by (cases m) (simp_all add: bind_err_def)

lemma row_kept_iff:
  "row_kept r \<longleftrightarrow> (\<exists>h. holding_of_row float_repr r = Inr (Some h))"
proof -
  let ?q = "py_or (get r ''Quantity'') (get_default r ''quantity'' (CInt 0))"
  let ?a = "py_or (get r ''avg_price'') (get_default r ''avgPrice'' (CInt 0))"
  let ?c = "py_or (get r ''current_price'') (get_default r ''currentPrice'' (CInt 0))"
  let ?v = "py_or (get r ''value'') (get_default r ''Value'' (CInt 0))"
  let ?g = "py_or (get r ''gain_loss'') (get_default r ''gainLoss'' (CInt 0))"
  let ?p = "py_or (get r ''gain_loss_percent'') (get_default r ''gainLossPercent'' (CInt 0))"
  have kept: "row_kept r \<longleftrightarrow>
      has_symbol r \<and> converts ?q \<and> converts ?a \<and> converts ?c \<and> converts ?v \<and> converts ?g
      \<and> (\<not> truthy ?p \<or> is_number ?p)"
    by (simp add: row_kept_def numeric_cells_def percent_cell_def)
  show ?thesis
  proof (cases "has_symbol r")
    case False
    then show ?thesis
      by (simp add: kept) (simp add: has_symbol_def holding_of_row_def)
  next
    case True
    then have s: "truthy (py_or (get r ''Symbol'') (get r ''symbol''))"
      by (simp add: has_symbol_def)
    have "(\<exists>h. holding_of_row float_repr r = Inr (Some h)) \<longleftrightarrow>
        (\<exists>q. int_or_zero ?q = Inr q) \<and> (\<exists>x. float_or_zero ?a = Inr x)
        \<and> (\<exists>x. float_or_zero ?c = Inr x) \<and> (\<exists>x. float_or_zero ?v = Inr x)
        \<and> (\<exists>x. float_or_zero ?g = Inr x) \<and> (\<exists>x. normalize_gain_loss_percent ?p = Inr x)"
      using s
      by (auto simp add: holding_of_row_def Let_def bind_err_def split: sum.splits)
    then show ?thesis
      using True
      by (simp add: kept int_or_zero_converts float_or_zero_converts normalize_converts)
  qed
qed

lemma holdings_rows_length:
  "holdings_rows float_repr rs = Inr hs \<Longrightarrow> length hs = length (filter row_kept rs)"
proof (induction rs arbitrary: hs)
  case Nil
  then show ?case by simp
next
  case (Cons r rs)
  from Cons.prems obtain x hs'
    where x: "handled (holding_of_row float_repr r) (Inr None) = Inr x"
      and rest: "holdings_rows float_repr rs = Inr hs'"
      and hs: "hs = (case x of None \<Rightarrow> hs' | Some h \<Rightarrow> h # hs')"
    by (auto simp add: bind_err_def split: sum.splits)
  have len: "length hs' = length (filter row_kept rs)"
    by (rule Cons.IH[OF rest])
  show ?case
  proof (cases x)
    case None
    with x have "\<not> (\<exists>h. holding_of_row float_repr r = Inr (Some h))"
      by (auto simp add: handled_def split: sum.splits if_splits)
    then have "\<not> row_kept r"
      using row_kept_iff by blast
    with None hs len show ?thesis by simp
  next
    case (Some h)
    with x have "holding_of_row float_repr r = Inr (Some h)"
      by (auto simp add: handled_def split: sum.splits if_splits)
    then have "row_kept r"
      using row_kept_iff by blast
    with Some hs len show ?thesis by simp
  qed
qed

lemma load_success_holdings:
  assumes "load_excel_data float_repr src cache = Some (True, cache')"
  shows "\<exists>hs. load_holdings float_repr src = Inr hs \<and> holdings cache' = Some hs"
  using assms
  by (auto simp add: load_excel_data_def failed_def Let_def split: if_splits sum.splits)

lemma query_with_holdings:
  assumes "holdings cache = Some hs" and "hs \<noteq> []"
  shows "get_portfolio_holdings float_repr src cache =
     Some (Inr (map (\<lambda>h. h\<lparr>gainLossPercent := py_round (gainLossPercent h) 2\<rparr>) hs), cache)"
  using assms
  by (simp add: get_portfolio_holdings_def ensure_data_loaded_def bind_err_def handled_def)

lemma load_holdings_frames:
  assumes "load_holdings float_repr src = Inr hs"
  shows "\<exists>df0 df. read_holdings src = Inr df0
           \<and> apply_renames (column_mapping (columns df0)) df0 = Inr df
           \<and> holdings_rows float_repr (iter_rows df) = Inr hs"
  using assms
  by (auto simp add: load_holdings_def bind_err_def split: sum.splits)

lemma query_counts_kept_rows:
  assumes "load_excel_data float_repr src cache = Some (True, cache')"
  shows "\<exists>df0 df. read_holdings src = Inr df0
           \<and> apply_renames (column_mapping (columns df0)) df0 = Inr df
           \<and> (filter row_kept (iter_rows df) \<noteq> [] \<longrightarrow>
                (\<exists>items. get_portfolio_holdings float_repr src cache' = Some (Inr items, cache')
                   \<and> length items = length (filter row_kept (iter_rows df))))"
proof -
  from load_success_holdings[OF assms] obtain hs
    where lh: "load_holdings float_repr src = Inr hs" and hc: "holdings cache' = Some hs"
    by blast
  from load_holdings_frames[OF lh] obtain df0 df
    where f: "read_holdings src = Inr df0"
      "apply_renames (column_mapping (columns df0)) df0 = Inr df"
      "holdings_rows float_repr (iter_rows df) = Inr hs"
    by blast
  have len: "length hs = length (filter row_kept (iter_rows df))"
    by (rule holdings_rows_length[OF f(3)])
  have "\<exists>items. get_portfolio_holdings float_repr src cache' = Some (Inr items, cache')
      \<and> length items = length (filter row_kept (iter_rows df))"
    if "filter row_kept (iter_rows df) \<noteq> []"
  proof -
    from that len have "hs \<noteq> []" by auto
    with len show ?thesis by (simp add: query_with_holdings[OF hc])
  qed
  with f(1,2) show ?thesis by blast
qed

lemma blank_cells_coerced:
  assumes "has_symbol r" and "list_all (\<lambda>c. \<not> truthy c) (numeric_cells r)"
    and "\<not> truthy (percent_cell r)"
  shows "\<exists>h. holding_of_row float_repr r = Inr (Some h) \<and> quantity h = 0 \<and> avgPrice h = 0
            \<and> currentPrice h = 0 \<and> hvalue h = 0 \<and> gainLoss h = 0 \<and> gainLossPercent h = 0"
  using assms
  by (simp add: has_symbol_def numeric_cells_def percent_cell_def holding_eval Let_def
      bind_err_def)

lemma text_cell_not_kept:
  assumes "CStr s \<in> set (numeric_cells r)" and "s \<noteq> []" and "float_of_str s = None"
  shows "\<not> row_kept r"
proof -
  have "\<not> converts (CStr s)"
    using assms(2,3) by (simp add: converts_def truthy_def is_number_def is_finite_text_def)
  with assms(1) show ?thesis
    by (auto simp add: row_kept_def list_all_iff)
qed

lemma sample_query:
  "get_portfolio_holdings float_repr sample_source sample_cache = Some (Inr [tcs], sample_cache)"
proof -
  have h: "holdings sample_cache = Some [tcs]"
    by (simp add: sample_cache_def)
  have "py_round 0 2 = 0"
    by (simp add: py_round_def round_half_even_def)
  then show ?thesis
    by (simp add: query_with_holdings[OF h] tcs_def)
qed

lemma sample_rows_with_symbol:
  "filter has_symbol
     (iter_rows (sample_holdings_frame\<lparr>columns := [''Symbol'', ''Quantity'', ''value'']\<rparr>)) =
   iter_rows (sample_holdings_frame\<lparr>columns := [''Symbol'', ''Quantity'', ''value'']\<rparr>)"
  by (simp add: sample_rows has_symbol_def cell_eval)

lemma sample_rows_kept:
  "filter row_kept
     (iter_rows (sample_holdings_frame\<lparr>columns := [''Symbol'', ''Quantity'', ''value'']\<rparr>)) =
   [map_of (zip [''Symbol'', ''Quantity'', ''value''] [CStr ''TCS'', CStr ''10'', CStr ''1500.5''])]"
proof -
  have k: "row_kept (map_of (zip [''Symbol'', ''Quantity'', ''value'']
              [CStr ''TCS'', CStr ''10'', CStr ''1500.5'']))"
    using row_kept_iff[of _ sample_float_repr] sample_first_row[of sample_float_repr] by blast
  have n: "\<not> row_kept (map_of (zip [''Symbol'', ''Quantity'', ''value'']
              [CStr ''INFY'', CStr ''n/a'', CStr ''900'']))"
    using row_kept_iff[of _ sample_float_repr] sample_second_row[of sample_float_repr] by auto
  show ?thesis
    by (simp only: sample_rows filter.simps k n if_True if_False)
qed

text \<open>
  C4, as stated, at the sample file: the load succeeds; the Holdings sheet has two rows
  with a non-empty symbol; the second has the quantity \<open>n/a\<close>, on which \<open>float\<close>
  raises, so the row loop passes it over, and the holdings query returns one record.
\<close>

theorem holdings_query_drops_row_counterexample:
  "load_excel_data sample_float_repr sample_source empty_cache = Some (True, sample_cache)
   \<and> read_holdings sample_source = Inr sample_holdings_frame
   \<and> apply_renames (column_mapping (columns sample_holdings_frame)) sample_holdings_frame =
       Inr (sample_holdings_frame\<lparr>columns := [''Symbol'', ''Quantity'', ''value'']\<rparr>)
   \<and> length (filter has_symbol
        (iter_rows (sample_holdings_frame\<lparr>columns := [''Symbol'', ''Quantity'', ''value'']\<rparr>))) = 2
   \<and> get_portfolio_holdings sample_float_repr sample_source sample_cache =
       Some (Inr [tcs], sample_cache)
   \<and> length [tcs] = 1"
  by (simp add: sample_load sample_read_holdings sample_column_mapping sample_renamed
      sample_rows_with_symbol sample_query del: apply_renames.simps)
    (simp add: sample_rows)

text \<open>
  C4, amended. After a successful load the holdings query returns exactly as many
  records as the Holdings sheet has rows with a non-empty symbol whose numeric cells all
  convert, whenever there is at least one such row. A cell converts when it is blank or
  zero, a number, or a text that \<open>float\<close> reads as a finite number; the gain/loss
  percent cell, on which \<open>abs\<close> is called, converts when it is blank or zero or a
  number. These are exactly the rows from which the row loop builds a holding. A row
  with a non-empty symbol whose numeric cells are all blank or zero is among them, with
  those fields 0 and 0.0; a row with a numeric cell holding a text that is not a number
  is not. The statement is about the loads the model represents: a sheet with a text
  that \<open>float\<close> reads as an infinity or a NaN is outside it.
\<close>

theorem holdings_query_counts_kept_rows:
  assumes "load_excel_data float_repr src cache = Some (True, cache')"
  shows "(\<exists>df0 df. read_holdings src = Inr df0
           \<and> apply_renames (column_mapping (columns df0)) df0 = Inr df
           \<and> (filter row_kept (iter_rows df) \<noteq> [] \<longrightarrow>
                (\<exists>items. get_portfolio_holdings float_repr src cache' = Some (Inr items, cache')
                   \<and> length items = length (filter row_kept (iter_rows df)))))
   \<and> (row_kept r \<longleftrightarrow> (\<exists>h. holding_of_row float_repr r = Inr (Some h)))
   \<and> (has_symbol r \<and> list_all (\<lambda>c. \<not> truthy c) (numeric_cells r) \<and> \<not> truthy (percent_cell r)
        \<longrightarrow> row_kept r
            \<and> (\<exists>h. holding_of_row float_repr r = Inr (Some h) \<and> quantity h = 0 \<and> avgPrice h = 0
                  \<and> currentPrice h = 0 \<and> hvalue h = 0 \<and> gainLoss h = 0
                  \<and> gainLossPercent h = 0))
   \<and> (CStr s \<in> set (numeric_cells r) \<and> s \<noteq> [] \<and> float_of_str s = None
        \<longrightarrow> \<not> row_kept r \<and> (\<forall>h. holding_of_row float_repr r \<noteq> Inr (Some h)))"
proof (intro conjI impI)
  show "\<exists>df0 df. read_holdings src = Inr df0
           \<and> apply_renames (column_mapping (columns df0)) df0 = Inr df
           \<and> (filter row_kept (iter_rows df) \<noteq> [] \<longrightarrow>
                (\<exists>items. get_portfolio_holdings float_repr src cache' = Some (Inr items, cache')
                   \<and> length items = length (filter row_kept (iter_rows df))))"
    by (rule query_counts_kept_rows[OF assms])
  show "row_kept r \<longleftrightarrow> (\<exists>h. holding_of_row float_repr r = Inr (Some h))"
    by (rule row_kept_iff)
next
  assume b: "has_symbol r \<and> list_all (\<lambda>c. \<not> truthy c) (numeric_cells r)
      \<and> \<not> truthy (percent_cell r)"
  then show z: "\<exists>h. holding_of_row float_repr r = Inr (Some h) \<and> quantity h = 0 \<and> avgPrice h = 0
            \<and> currentPrice h = 0 \<and> hvalue h = 0 \<and> gainLoss h = 0 \<and> gainLossPercent h = 0"
    using blank_cells_coerced[of r float_repr] by blast
  then show "row_kept r"
    using row_kept_iff[of r float_repr] by blast
next
  assume t: "CStr s \<in> set (numeric_cells r) \<and> s \<noteq> [] \<and> float_of_str s = None"
  then show n: "\<not> row_kept r"
    using text_cell_not_kept[of s r] by blast
  then show "\<forall>h. holding_of_row float_repr r \<noteq> Inr (Some h)"
    using row_kept_iff[of r float_repr] by blast
qed

theorem holdings_query_counts_kept_rows_witness:
  "load_excel_data sample_float_repr sample_source empty_cache = Some (True, sample_cache)
   \<and> filter row_kept
        (iter_rows (sample_holdings_frame\<lparr>columns := [''Symbol'', ''Quantity'', ''value'']\<rparr>)) \<noteq> []
   \<and> (\<exists>items. get_portfolio_holdings sample_float_repr sample_source sample_cache =
                  Some (Inr items, sample_cache)
         \<and> length items = 1)
   \<and> has_symbol blank_row \<and> list_all (\<lambda>c. \<not> truthy c) (numeric_cells blank_row)
   \<and> \<not> truthy (percent_cell blank_row)
   \<and> row_kept blank_row
   \<and> (\<exists>h. holding_of_row sample_float_repr blank_row = Inr (Some h) \<and> quantity h = 0
         \<and> avgPrice h = 0 \<and> currentPrice h = 0 \<and> hvalue h = 0 \<and> gainLoss h = 0
         \<and> gainLossPercent h = 0)
   \<and> CStr ''n/a'' \<in> set (numeric_cells (map_of (zip [''Symbol'', ''Quantity'', ''value'']
                                              [CStr ''INFY'', CStr ''n/a'', CStr ''900''])))
   \<and> ''n/a'' \<noteq> [] \<and> float_of_str ''n/a'' = None
   \<and> \<not> row_kept (map_of (zip [''Symbol'', ''Quantity'', ''value'']
                            [CStr ''INFY'', CStr ''n/a'', CStr ''900'']))"
proof -
  have l: "load_excel_data sample_float_repr sample_source empty_cache = Some (True, sample_cache)"
    by (rule sample_load)
  have b: "has_symbol blank_row \<and> list_all (\<lambda>c. \<not> truthy c) (numeric_cells blank_row)
      \<and> \<not> truthy (percent_cell blank_row)"
    by (simp add: has_symbol_def numeric_cells_def percent_cell_def blank_row_def cell_eval)
  have t: "CStr ''n/a'' \<in> set (numeric_cells (map_of (zip [''Symbol'', ''Quantity'', ''value'']
                                              [CStr ''INFY'', CStr ''n/a'', CStr ''900''])))
      \<and> ''n/a'' \<noteq> [] \<and> float_of_str ''n/a'' = None"
    by (simp add: numeric_cells_def cell_eval float_of_str_not_a_number)
  note th = holdings_query_counts_kept_rows[OF l, of blank_row "''n/a''"]
  from th have "\<exists>df0 df. read_holdings sample_source = Inr df0
           \<and> apply_renames (column_mapping (columns df0)) df0 = Inr df
           \<and> (filter row_kept (iter_rows df) \<noteq> [] \<longrightarrow>
                (\<exists>items. get_portfolio_holdings sample_float_repr sample_source sample_cache =
                            Some (Inr items, sample_cache)
                   \<and> length items = length (filter row_kept (iter_rows df))))"
    by blast
  then have count: "filter row_kept
        (iter_rows (sample_holdings_frame\<lparr>columns := [''Symbol'', ''Quantity'', ''value'']\<rparr>)) \<noteq> []
    \<and> (\<exists>items. get_portfolio_holdings sample_float_repr sample_source sample_cache =
                  Some (Inr items, sample_cache)
         \<and> length items = 1)"
    by (simp add: sample_read_holdings sample_column_mapping sample_renamed
        sample_rows_kept sample_query del: apply_renames.simps)
  from th b have first: "row_kept blank_row
    \<and> (\<exists>h. holding_of_row sample_float_repr blank_row = Inr (Some h) \<and> quantity h = 0
         \<and> avgPrice h = 0 \<and> currentPrice h = 0 \<and> hvalue h = 0 \<and> gainLoss h = 0
         \<and> gainLossPercent h = 0)"
    by blast
  have second: "\<not> row_kept (map_of (zip [''Symbol'', ''Quantity'', ''value'']
                            [CStr ''INFY'', CStr ''n/a'', CStr ''900'']))"
    using t holdings_query_counts_kept_rows[OF l,
        of "map_of (zip [''Symbol'', ''Quantity'', ''value'']
                        [CStr ''INFY'', CStr ''n/a'', CStr ''900''])" "''n/a''"]
    by blast
  from l b t count first second show ?thesis by blast
qed

end
